theory Spec2Isabelle
  imports Complex_Main "HOL-Library.Sublist" "HOL-Library.AList"
begin

section \<open>Data model\<close>

text \<open>
  A pandas scalar.  \<open>Null\<close> stands for a missing entry (None, NaN or NaT), \<open>IntV\<close> for an
  integer, \<open>FloatV\<close> for a float (given by a rational number; the statistics and the
  thresholds read it rounded to a float64 and compute in float64), \<open>Str\<close> for a text value
  and \<open>Time\<close> for a timestamp.
\<close>

datatype cell = Null | IntV int | FloatV rat | Str string | Time int

datatype dtype = Int64 | Float64 | Object | Datetime64

record column =
  col_dtype :: dtype
  col_values :: "cell list"

text \<open>
  A DataFrame: the row labels (its index) and the named columns in their order.  In a
  well-formed table every column has one value per row label, of a kind its dtype allows,
  and column names and row labels are distinct.
\<close>

record table =
  index :: "int list"
  cols :: "(string \<times> column) list"

definition df_len :: "table \<Rightarrow> nat" where
  "df_len df = length (index df)"

definition df_columns :: "table \<Rightarrow> string list" where
  "df_columns df = map fst (cols df)"

definition df_empty :: "table \<Rightarrow> bool" where
  "df_empty df = (index df = [] \<or> cols df = [])"

text \<open>The values a column of each dtype holds: an integer column has no missing entries.\<close>

definition cell_fits :: "dtype \<Rightarrow> cell \<Rightarrow> bool" where
  "cell_fits d v =
     (case d of
        Int64 \<Rightarrow> (case v of IntV i \<Rightarrow> True | _ \<Rightarrow> False)
      | Float64 \<Rightarrow> (case v of FloatV r \<Rightarrow> True | Null \<Rightarrow> True | _ \<Rightarrow> False)
      | Datetime64 \<Rightarrow> (case v of Time t \<Rightarrow> True | Null \<Rightarrow> True | _ \<Rightarrow> False)
      | Object \<Rightarrow> True)"

definition wf_column :: "nat \<Rightarrow> column \<Rightarrow> bool" where
  "wf_column n c = (length (col_values c) = n \<and> list_all (cell_fits (col_dtype c)) (col_values c))"

definition wf_table :: "table \<Rightarrow> bool" where
  "wf_table df =
     (distinct (index df) \<and> distinct (map fst (cols df)) \<and>
      list_all (\<lambda>(n, c). wf_column (length (index df)) c) (cols df))"

section \<open>Strings\<close>

text \<open>Python's \<open>w in s\<close> on strings: \<open>w\<close> occurs in \<open>s\<close> as a contiguous substring.\<close>

fun py_in :: "string \<Rightarrow> string \<Rightarrow> bool" where
  "py_in w [] = (w = [])"
| "py_in w (c # cs) = (prefix w (c # cs) \<or> py_in w cs)"

text \<open>
  \<open>str.lower()\<close>, \<open>str.strip()\<close> and the regular-expression class \<open>\w\<close>, on ASCII text
  (the model's strings are byte strings; the bytes of a non-ASCII character are neither
  letters, nor whitespace, nor word characters here).
\<close>

definition lower_char :: "char \<Rightarrow> char" where
  "lower_char c =
     (let n = (of_char c :: nat) in if 65 \<le> n \<and> n \<le> 90 then char_of (n + 32) else c)"

definition upper_char :: "char \<Rightarrow> char" where
  "upper_char c =
     (let n = (of_char c :: nat) in if 97 \<le> n \<and> n \<le> 122 then char_of (n - 32) else c)"

definition py_lower :: "string \<Rightarrow> string" where
  "py_lower s = map lower_char s"

definition is_space :: "char \<Rightarrow> bool" where
  "is_space c = (let n = (of_char c :: nat) in (9 \<le> n \<and> n \<le> 13) \<or> (28 \<le> n \<and> n \<le> 32))"

definition py_strip :: "string \<Rightarrow> string" where
  "py_strip s = rev (dropWhile is_space (rev (dropWhile is_space s)))"

definition is_alpha :: "char \<Rightarrow> bool" where
  "is_alpha c = (let n = (of_char c :: nat) in (65 \<le> n \<and> n \<le> 90) \<or> (97 \<le> n \<and> n \<le> 122))"

definition is_digit :: "char \<Rightarrow> bool" where
  "is_digit c = (let n = (of_char c :: nat) in 48 \<le> n \<and> n \<le> 57)"

definition is_word_char :: "char \<Rightarrow> bool" where
  "is_word_char c = (is_alpha c \<or> is_digit c \<or> c = CHR ''_'')"

text \<open>\<open>str.title()\<close>: a letter that follows a letter is lower-cased, any other letter is
  upper-cased.\<close>

fun title_from :: "bool \<Rightarrow> string \<Rightarrow> string" where
  "title_from prev [] = []"
| "title_from prev (c # cs) =
     (if is_alpha c then (if prev then lower_char c else upper_char c) # title_from True cs
      else c # title_from False cs)"

definition py_title :: "string \<Rightarrow> string" where
  "py_title s = title_from False s"

text \<open>\<open>sep.join(parts)\<close>\<close>

fun py_join :: "string \<Rightarrow> string list \<Rightarrow> string" where
  "py_join sep [] = []"
| "py_join sep [x] = x"
| "py_join sep (x # y # ys) = x @ sep @ py_join sep (y # ys)"

text \<open>
  The regular expression \<open>\b\<close>: position \<open>i\<close> of \<open>s\<close> is a word boundary when exactly one of
  the characters before and after it is a word character (the outside of the string
  counts as a non-word character).
\<close>

definition word_before :: "string \<Rightarrow> nat \<Rightarrow> bool" where
  "word_before s i = (0 < i \<and> i \<le> length s \<and> is_word_char (s ! (i - 1)))"

definition word_after :: "string \<Rightarrow> nat \<Rightarrow> bool" where
  "word_after s i = (i < length s \<and> is_word_char (s ! i))"

definition word_boundary :: "string \<Rightarrow> nat \<Rightarrow> bool" where
  "word_boundary s i = (word_before s i \<noteq> word_after s i)"

text \<open>
  \<open>re.search(r"\b" + re.escape(key) + r"\b", s)\<close>: the escaped key matches itself only, so
  the search succeeds when \<open>key\<close> occurs at some position with a word boundary on each side.
\<close>

definition re_search_word :: "string \<Rightarrow> string \<Rightarrow> bool" where
  "re_search_word key s =
     list_ex (\<lambda>i. take (length key) (drop i s) = key \<and> word_boundary s i
                  \<and> word_boundary s (i + length key)) [0..<Suc (length s)]"

text \<open>Decimal text of an integer that is not negative, of a natural number and of an
  integer, as \<open>str\<close> prints them.\<close>

function show_digits :: "int \<Rightarrow> string" where
  "show_digits n =
     (if n < 10 then [char_of (48 + n)]
      else show_digits (n div 10) @ [char_of (48 + n mod 10)])"
  by auto
termination
  by (relation "measure nat") auto

declare show_digits.simps [simp del]

definition show_nat :: "nat \<Rightarrow> string" where
  "show_nat n = show_digits (int n)"

definition show_int :: "int \<Rightarrow> string" where
  "show_int i = (if i < 0 then CHR ''-'' # show_digits (- i) else show_digits i)"

text \<open>
  Python's fixed-point formats \<open>{x:.1f}\<close> and \<open>{x:.2f}\<close>: the value is rounded to the
  given number of decimals, ties to the even neighbour.
\<close>

definition round_half_even :: "rat \<Rightarrow> int" where
  "round_half_even x =
     (let f = \<lfloor>x\<rfloor>; d = x - of_int f
      in if d < 1 / 2 then f else if 1 / 2 < d then f + 1 else if even f then f else f + 1)"

definition pad_zeros :: "nat \<Rightarrow> string \<Rightarrow> string" where
  "pad_zeros d s = replicate (d - length s) CHR ''0'' @ s"

text \<open>The text of \<open>n / 10 ^ d\<close> with \<open>d\<close> decimals, for \<open>n\<close> not negative.\<close>

definition fmt_digits :: "nat \<Rightarrow> int \<Rightarrow> string" where
  "fmt_digits d n =
     show_digits (n div 10 ^ d) @ ''.'' @ pad_zeros d (show_digits (n mod 10 ^ d))"

definition fmt_fixed :: "nat \<Rightarrow> rat \<Rightarrow> string" where
  "fmt_fixed d x =
     (if x < 0 then ''-'' else []) @ fmt_digits d (round_half_even (\<bar>x\<bar> * 10 ^ d))"

text \<open>The number that the text \<open>fmt_fixed d x\<close> denotes (for at least one decimal).\<close>

definition shown_value :: "nat \<Rightarrow> rat \<Rightarrow> rat" where
  "shown_value d x =
     (if x < 0 then - 1 else 1) * of_int (round_half_even (\<bar>x\<bar> * 10 ^ d)) / 10 ^ d"

text \<open>Reading a fixed-point text back: an optional sign, the digits before the point and
  the digits after it.\<close>

definition digits_value :: "string \<Rightarrow> int" where
  "digits_value ds = foldl (\<lambda>a c. 10 * a + (of_char c - 48)) 0 ds"

definition read_fixed :: "string \<Rightarrow> rat" where
  "read_fixed s =
     (let neg = (s \<noteq> [] \<and> hd s = CHR ''-'');
          body = (if neg then tl s else s);
          ip = takeWhile (\<lambda>c. c \<noteq> CHR ''.'') body;
          fp = drop 1 (dropWhile (\<lambda>c. c \<noteq> CHR ''.'') body)
      in (if neg then - 1 else 1)
           * (of_int (digits_value ip) + of_int (digits_value fp) / 10 ^ length fp))"

section \<open>Reference extractors\<close>

text \<open>
  \<open>analyze_and_answer\<close> first builds \<open>col_map = {col.lower().strip(): col for col in columns}\<close>:
  a dictionary keeps the position of a key's first insertion and the value of its last.
\<close>

definition col_map :: "string list \<Rightarrow> (string \<times> string) list" where
  "col_map columns = foldl (\<lambda>m col. AList.update (py_strip (py_lower col)) col m) [] columns"

text \<open>The strict extractor: the loop of \<open>analyze_and_answer\<close> that fills \<open>mentioned_columns\<close>.\<close>

definition mentioned_columns :: "string \<Rightarrow> string list \<Rightarrow> string list" where
  "mentioned_columns user_input columns =
     map snd (filter (\<lambda>(col_key, col_name). re_search_word col_key user_input) (col_map columns))"

text \<open>The permissive extractor: the loop of \<open>handle_intelligent_fallback\<close> that fills
  \<open>mentioned_cols\<close>.\<close>

definition fallback_mentioned_cols :: "string \<Rightarrow> string list \<Rightarrow> string list" where
  "fallback_mentioned_cols user_input columns =
     filter (\<lambda>col. py_in (py_lower col) (py_lower user_input)) columns"

section \<open>Intent classifier\<close>

definition count_words :: "string list" where
  "count_words = [''how many'', ''count'', ''total'', ''number of'', ''quantity'']"

definition stats_words :: "string list" where
  "stats_words = [''average'', ''mean'', ''median'', ''min'', ''max'', ''sum'',
     ''statistics'', ''stats'', ''avg'']"

definition search_words :: "string list" where
  "search_words = [''find'', ''search'', ''show'', ''display'', ''get'']"

definition filter_words :: "string list" where
  "filter_words = [''where'', ''which'', ''what'', ''who'', ''when'', ''with'', ''having'']"

definition compare_words :: "string list" where
  "compare_words = [''compare'', ''difference'', ''vs'', ''versus'', ''more than'',
     ''less than'', ''greater'', ''smaller'']"

definition trend_words :: "string list" where
  "trend_words = [''trend'', ''over time'', ''recent'', ''latest'', ''oldest'', ''newest'',
     ''earliest'', ''last'']"

definition value_words :: "string list" where
  "value_words = [''value'', ''what is'', ''tell me'', ''give me'']"

definition list_words :: "string list" where
  "list_words = [''list'', ''all'', ''every'', ''each'']"

definition summary_words :: "string list" where
  "summary_words = [''summary'', ''overview'', ''tell me about'', ''describe'']"

text \<open>\<open>any(word in user_input for word in words)\<close>\<close>

definition any_word_in :: "string list \<Rightarrow> string \<Rightarrow> bool" where
  "any_word_in words user_input = list_ex (\<lambda>word. py_in word user_input) words"

definition detect_question_type :: "string \<Rightarrow> table \<Rightarrow> string list \<Rightarrow> string" where
  "detect_question_type user_input df columns =
     (if any_word_in count_words user_input then ''count''
      else if any_word_in stats_words user_input then ''statistics''
      else if any_word_in search_words user_input then ''search''
      else if any_word_in filter_words user_input then ''filter''
      else if any_word_in compare_words user_input then ''comparison''
      else if any_word_in trend_words user_input then ''trend''
      else if any_word_in value_words user_input then ''value''
      else if any_word_in list_words user_input then ''list''
      else if any_word_in summary_words user_input then ''summary''
      else ''general'')"

section \<open>Float64 arithmetic\<close>

text \<open>
  pandas computes the statistics of a numeric column in binary floating point.  A
  float64 is a rational \<open>m * 2 ^ e\<close> with a mantissa of 53 bits, and every operation gives
  the float64 nearest to the exact result, ties to the even mantissa.  (The model covers
  the normal range: it has no infinities and no subnormal numbers.)
\<close>

function int_bitlen :: "int \<Rightarrow> int" where
  "int_bitlen n = (if n \<le> 0 then 0 else 1 + int_bitlen (n div 2))"
  by auto
termination
  by (relation "measure nat") auto

declare int_bitlen.simps [simp del]

function pow2 :: "int \<Rightarrow> rat" where
  "pow2 e = (if e = 0 then 1 else if 0 < e then 2 * pow2 (e - 1) else pow2 (e + 1) / 2)"
  by auto
termination
  by (relation "measure (\<lambda>e. nat \<bar>e\<bar>)") auto

declare pow2.simps [simp del]

text \<open>\<open>ilog2 x\<close> is the integer \<open>l\<close> with \<open>2 ^ l \<le> x < 2 ^ (l + 1)\<close>, for \<open>x\<close> positive.\<close>

definition ilog2_guess :: "rat \<Rightarrow> int" where
  "ilog2_guess x = int_bitlen (fst (quotient_of x)) - int_bitlen (snd (quotient_of x))"

definition ilog2 :: "rat \<Rightarrow> int" where
  "ilog2 x = (if pow2 (ilog2_guess x) \<le> x then ilog2_guess x else ilog2_guess x - 1)"

text \<open>The float64 nearest to a rational.\<close>

definition f64_pos :: "rat \<Rightarrow> rat" where
  "f64_pos x = of_int (round_half_even (x / pow2 (ilog2 x - 52))) * pow2 (ilog2 x - 52)"

definition f64 :: "rat \<Rightarrow> rat" where
  "f64 x = (if x = 0 then 0 else if x < 0 then - f64_pos (- x) else f64_pos x)"

text \<open>The largest integer whose square is at most \<open>n\<close>, for \<open>n\<close> not negative.\<close>

definition isqrt_step :: "int \<Rightarrow> int \<Rightarrow> int" where
  "isqrt_step n r = (if (r + 1) * (r + 1) \<le> n then r + 1 else r)"

function isqrt :: "int \<Rightarrow> int" where
  "isqrt n =
     (if n < 4 then (if n \<le> 0 then 0 else 1) else isqrt_step n (2 * isqrt (n div 4)))"
  by auto
termination
  by (relation "measure nat") auto

declare isqrt.simps [simp del]

text \<open>
  The float64 square root: the mantissa is the integer nearest to the square root of the
  argument scaled into the range of 53-bit mantissas.
\<close>

definition round_sqrt :: "rat \<Rightarrow> int" where
  "round_sqrt q =
     (let k = isqrt \<lfloor>q\<rfloor>; tie = of_int (k * k + k) + 1 / 4
      in if q < tie then k else if tie < q then k + 1 else if even k then k else k + 1)"

definition sqrt_exponent :: "rat \<Rightarrow> int" where
  "sqrt_exponent x = (ilog2 x - 104) div 2"

definition f64_sqrt :: "rat \<Rightarrow> rat" where
  "f64_sqrt x =
     (if x \<le> 0 then 0
      else of_int (round_sqrt (x / pow2 (2 * sqrt_exponent x))) * pow2 (sqrt_exponent x))"

section \<open>The pandas operations the handlers use\<close>

text \<open>
  What the model takes from the Python and pandas libraries without computing it: the text
  of a float and of a timestamp, the parsing of one value as a date by \<open>pd.to_datetime\<close>
  (\<open>None\<close>: the value cannot be parsed), the month of a timestamp with its text, and the
  float64 sum of eight values or more.
\<close>

record pylib =
  float_str :: "rat \<Rightarrow> string"
  time_str :: "int \<Rightarrow> string"
  parse_datetime :: "cell \<Rightarrow> int option"
  period_of :: "int \<Rightarrow> int"
  period_str :: "int \<Rightarrow> string"
  long_sum :: "rat list \<Rightarrow> rat"

text \<open>\<open>str(val)\<close>, also what \<open>astype(str)\<close> and an f-string field give.\<close>

fun py_str :: "pylib \<Rightarrow> cell \<Rightarrow> string" where
  "py_str lib Null = ''nan''"
| "py_str lib (IntV i) = show_int i"
| "py_str lib (FloatV r) = float_str lib r"
| "py_str lib (Str s) = s"
| "py_str lib (Time t) = time_str lib t"

text \<open>\<open>df[col]\<close>.  The handlers look up names taken from \<open>df.columns\<close>; for any other name
  the model gives a column without values.\<close>

definition df_get :: "table \<Rightarrow> string \<Rightarrow> column" where
  "df_get df col =
     (case map_of (cols df) col of Some c \<Rightarrow> c
      | None \<Rightarrow> \<lparr>col_dtype = Object, col_values = []\<rparr>)"

definition col_in_df :: "string \<Rightarrow> table \<Rightarrow> bool" where
  "col_in_df col df = (col \<in> set (df_columns df))"

text \<open>\<open>df[col] = values\<close> on an existing column: the column keeps its place.\<close>

definition df_set :: "table \<Rightarrow> string \<Rightarrow> column \<Rightarrow> table" where
  "df_set df col c =
     (if col_in_df col df then df\<lparr>cols := map (\<lambda>(n, old). if n = col then (n, c) else (n, old)) (cols df)\<rparr>
      else df\<lparr>cols := cols df @ [(col, c)]\<rparr>)"

definition notna :: "cell \<Rightarrow> bool" where
  "notna v = (v \<noteq> Null)"

definition dropna :: "cell list \<Rightarrow> cell list" where
  "dropna vs = filter notna vs"

text \<open>\<open>Series.unique()\<close>: the distinct values in order of first appearance.\<close>

definition unique :: "'a list \<Rightarrow> 'a list" where
  "unique vs = rev (remdups (rev vs))"

definition nunique :: "cell list \<Rightarrow> nat" where
  "nunique vs = length (unique (dropna vs))"

text \<open>
  \<open>Series.value_counts()\<close> on a series without missing values: each distinct value with the
  number of its occurrences, most frequent first (values of equal frequency in order of
  first appearance).
\<close>

definition value_counts :: "'a list \<Rightarrow> ('a \<times> nat) list" where
  "value_counts vs =
     sort_key (\<lambda>(v, n). - int n) (map (\<lambda>v. (v, count_list vs v)) (unique vs))"

definition is_numeric :: "dtype \<Rightarrow> bool" where
  "is_numeric d = (d = Int64 \<or> d = Float64)"

text \<open>\<open>df.select_dtypes(include=[np.number]).columns.tolist()\<close>\<close>

definition numeric_columns :: "table \<Rightarrow> string list" where
  "numeric_columns df = map fst (filter (\<lambda>(n, c). is_numeric (col_dtype c)) (cols df))"

text \<open>The number in a cell of a numeric column, as a float64.\<close>

fun num_of :: "cell \<Rightarrow> rat option" where
  "num_of (IntV i) = Some (f64 (of_int i))"
| "num_of (FloatV r) = Some (f64 r)"
| "num_of _ = None"

definition nums :: "cell list \<Rightarrow> rat list" where
  "nums vs = List.map_filter num_of vs"

text \<open>Selecting the rows at which a list of booleans is true, in one list and in a table.\<close>

definition select :: "bool list \<Rightarrow> 'a list \<Rightarrow> 'a list" where
  "select keep xs = map snd (filter fst (zip keep xs))"

definition select_rows :: "bool list \<Rightarrow> table \<Rightarrow> table" where
  "select_rows keep df =
     \<lparr>index = select keep (index df),
      cols = map (\<lambda>(n, c). (n, c\<lparr>col_values := select keep (col_values c)\<rparr>)) (cols df)\<rparr>"

text \<open>
  \<open>frame[mask]\<close> for a boolean series with the row labels \<open>labels\<close> and the values \<open>marks\<close>: the rows
  of \<open>frame\<close> whose label is marked true (row labels are distinct in a well-formed table).
\<close>

definition bool_index :: "table \<Rightarrow> int list \<Rightarrow> bool list \<Rightarrow> table" where
  "bool_index frame labels marks =
     select_rows (map (\<lambda>l. map_of (zip labels marks) l = Some True) (index frame)) frame"

definition df_head :: "nat \<Rightarrow> table \<Rightarrow> table" where
  "df_head n df =
     \<lparr>index = take n (index df),
      cols = map (\<lambda>(nm, c). (nm, c\<lparr>col_values := take n (col_values c)\<rparr>)) (cols df)\<rparr>"

definition df_tail :: "nat \<Rightarrow> table \<Rightarrow> table" where
  "df_tail n df =
     \<lparr>index = drop (length (index df) - n) (index df),
      cols = map (\<lambda>(nm, c). (nm, c\<lparr>col_values := drop (length (col_values c) - n) (col_values c)\<rparr>))
               (cols df)\<rparr>"

text \<open>
  \<open>frame.iterrows()\<close>: each row label with the row as (column, value) pairs.  A row of a
  frame whose columns are all numeric, one of them float, comes as floats.
\<close>

definition cell_at :: "column \<Rightarrow> nat \<Rightarrow> cell" where
  "cell_at c i = (if i < length (col_values c) then col_values c ! i else Null)"

definition rows_as_float :: "table \<Rightarrow> bool" where
  "rows_as_float df =
     (list_all (\<lambda>(n, c). is_numeric (col_dtype c)) (cols df)
      \<and> list_ex (\<lambda>(n, c). col_dtype c = Float64) (cols df))"

fun as_float :: "cell \<Rightarrow> cell" where
  "as_float (IntV i) = FloatV (of_int i)"
| "as_float v = v"

definition iterrows :: "table \<Rightarrow> (int \<times> (string \<times> cell) list) list" where
  "iterrows df =
     map (\<lambda>i. (index df ! i,
                map (\<lambda>(n, c). (n, if rows_as_float df then as_float (cell_at c i) else cell_at c i))
                    (cols df)))
         [0..<length (index df)]"

text \<open>\<open>row.get(col, "N/A")\<close>\<close>

definition row_get :: "(string \<times> cell) list \<Rightarrow> string \<Rightarrow> cell" where
  "row_get row col = (case map_of row col of Some v \<Rightarrow> v | None \<Rightarrow> Str ''N/A'')"

text \<open>
  The loop that every row listing shares:
  \<open>for col in columns[:k]: val = row.get(col, "N/A");
    if pd.notna(val) and str(val).strip(): key_info.append(f"{col}: {val}")\<close>
\<close>

definition key_info :: "pylib \<Rightarrow> nat \<Rightarrow> string list \<Rightarrow> (string \<times> cell) list \<Rightarrow> string list" where
  "key_info lib k columns row =
     List.map_filter
       (\<lambda>col. let val = row_get row col
               in if notna val \<and> py_strip (py_str lib val) \<noteq> [] then Some (col @ '': '' @ py_str lib val)
                  else None)
       (take k columns)"

text \<open>
  The float64 sum of a series.  numpy adds fewer than eight values one after the other,
  starting from zero; the order in which it adds more values is the library's.
\<close>

definition fsum :: "pylib \<Rightarrow> rat list \<Rightarrow> rat" where
  "fsum lib xs = (if length xs < 8 then foldl (\<lambda>a x. f64 (a + x)) 0 xs else long_sum lib xs)"

text \<open>Aggregations of a numeric series; pandas skips the missing values, and the result
  is missing itself when nothing is left.  The minimum and the maximum are entries of
  the series; the mean is the float64 sum divided by the count.\<close>

definition list_min :: "rat list \<Rightarrow> rat" where
  "list_min xs = foldl min (hd xs) (tl xs)"

definition list_max :: "rat list \<Rightarrow> rat" where
  "list_max xs = foldl max (hd xs) (tl xs)"

definition list_mean :: "pylib \<Rightarrow> rat list \<Rightarrow> rat" where
  "list_mean lib xs = f64 (fsum lib xs / of_nat (length xs))"

text \<open>
  The 50% quantile with linear interpolation: the middle value, or for an even count the
  point half-way between the two middle values \<open>a\<close> and \<open>b\<close>, which numpy computes as
  \<open>b - (b - a) * 0.5\<close>.
\<close>

definition list_median :: "rat list \<Rightarrow> rat" where
  "list_median xs =
     (let ys = sort xs; n = length ys
      in if odd n then ys ! ((n - 1) div 2)
         else f64 (ys ! (n div 2) - f64 (f64 (ys ! (n div 2) - ys ! (n div 2 - 1)) * (1 / 2))))"

text \<open>
  The sample standard deviation (\<open>ddof = 1\<close>), as pandas computes it: the float64 sum of
  the squared distances from the mean, divided by the count less one, and its square
  root.  It is missing for a single value.
\<close>

definition list_std :: "pylib \<Rightarrow> rat list \<Rightarrow> rat option" where
  "list_std lib xs =
     (if length xs < 2 then None
      else Some (f64_sqrt (f64 (fsum lib (map (\<lambda>x. f64 ((f64 (list_mean lib xs - x))\<^sup>2)) xs)
                                / of_nat (length xs - 1)))))"

definition series_min :: "cell list \<Rightarrow> rat option" where
  "series_min vs = (if nums vs = [] then None else Some (list_min (nums vs)))"

definition series_max :: "cell list \<Rightarrow> rat option" where
  "series_max vs = (if nums vs = [] then None else Some (list_max (nums vs)))"

definition series_mean :: "pylib \<Rightarrow> cell list \<Rightarrow> rat option" where
  "series_mean lib vs = (if nums vs = [] then None else Some (list_mean lib (nums vs)))"

text \<open>\<open>Series.describe()\<close> of a numeric series without missing values.\<close>

record describe_result =
  d_count :: nat
  d_mean :: rat
  d_std :: "rat option"
  d_min :: rat
  d_median :: rat
  d_max :: rat

definition describe :: "pylib \<Rightarrow> cell list \<Rightarrow> describe_result" where
  "describe lib col_data =
     (let xs = nums col_data
      in \<lparr>d_count = length xs, d_mean = list_mean lib xs, d_std = list_std lib xs,
          d_min = list_min xs, d_median = list_median xs, d_max = list_max xs\<rparr>)"

text \<open>\<open>{x:.2f}\<close> of a number that may be missing.\<close>

definition fmt_opt :: "nat \<Rightarrow> rat option \<Rightarrow> string" where
  "fmt_opt d x = (case x of None \<Rightarrow> ''nan'' | Some r \<Rightarrow> fmt_fixed d r)"

text \<open>
  \<open>pd.concat([a, b], ignore_index=True, sort=False)\<close>: the rows of \<open>a\<close>, then the rows of
  \<open>b\<close>, under the columns of \<open>a\<close> followed by the further columns of \<open>b\<close>; a column that
  a frame lacks is missing in that frame's rows.  A frame without rows has no say in the
  dtype of a column; an integer column that gets missing entries becomes a float column,
  and columns of two different dtypes become a float column when both are numeric and an
  object column otherwise.
\<close>

definition concat_dtype :: "table \<Rightarrow> table \<Rightarrow> string \<Rightarrow> dtype" where
  "concat_dtype a b n =
     (let ds = remdups (map (\<lambda>t. col_dtype (df_get t n))
                          (filter (\<lambda>t. col_in_df n t \<and> df_len t > 0) [a, b]));
          missing = list_ex (\<lambda>t. \<not> col_in_df n t \<and> df_len t > 0) [a, b]
      in case ds of
           [] \<Rightarrow> (if col_in_df n a then col_dtype (df_get a n) else col_dtype (df_get b n))
         | [d] \<Rightarrow> (if missing \<and> d = Int64 then Float64 else d)
         | _ \<Rightarrow> (if list_all is_numeric ds then Float64 else Object))"

definition concat_values :: "table \<Rightarrow> string \<Rightarrow> cell list" where
  "concat_values t n =
     (if col_in_df n t then col_values (df_get t n) else replicate (df_len t) Null)"

definition pd_concat :: "table \<Rightarrow> table \<Rightarrow> table" where
  "pd_concat a b =
     \<lparr>index = map int [0..<df_len a + df_len b],
      cols = map (\<lambda>n. (n, \<lparr>col_dtype = concat_dtype a b n,
                              col_values = map (if concat_dtype a b n = Float64 then as_float else id)
                                             (concat_values a n @ concat_values b n)\<rparr>))
                 (df_columns a @ filter (\<lambda>n. n \<notin> set (df_columns a)) (df_columns b))\<rparr>"

text \<open>\<open>pd.DataFrame()\<close>\<close>

definition empty_frame :: table where
  "empty_frame = \<lparr>index = [], cols = []\<rparr>"

text \<open>\<open>frame.drop_duplicates()\<close>: a row stays when no earlier row has the same values.\<close>

definition row_values :: "table \<Rightarrow> nat \<Rightarrow> cell list" where
  "row_values df i = map (\<lambda>(n, c). cell_at c i) (cols df)"

definition drop_duplicates :: "table \<Rightarrow> table" where
  "drop_duplicates df =
     select_rows (map (\<lambda>i. row_values df i \<notin> set (map (row_values df) [0..<i]))
                      [0..<df_len df]) df"

text \<open>\<open>re.findall(r"\b\w+\b", s)\<close>: the maximal runs of word characters.\<close>

fun split_words :: "string \<Rightarrow> string \<Rightarrow> string list" where
  "split_words cur [] = (if cur = [] then [] else [cur])"
| "split_words cur (c # cs) =
     (if is_word_char c then split_words (cur @ [c]) cs
      else (if cur = [] then [] else [cur]) @ split_words [] cs)"

definition re_findall_words :: "string \<Rightarrow> string list" where
  "re_findall_words s = split_words [] s"

text \<open>
  \<open>re.findall(r"\d+\.?\d*", s)\<close> and \<open>float(numbers[0])\<close>: the first run of digits with, if
  a point follows it, the point and the digits after it, read as a decimal number and
  rounded to a float64.
\<close>

definition first_number :: "string \<Rightarrow> rat option" where
  "first_number s =
     (let rest = dropWhile (\<lambda>c. \<not> is_digit c) s
      in if rest = [] then None
         else (let ip = takeWhile is_digit rest
               in case dropWhile is_digit rest of
                    c # after \<Rightarrow>
                      (if c = CHR ''.'' then
                         (let fp = takeWhile is_digit after
                          in Some (f64 (of_int (digits_value ip) + of_int (digits_value fp) / 10 ^ length fp)))
                       else Some (f64 (of_int (digits_value ip))))
                  | [] \<Rightarrow> Some (f64 (of_int (digits_value ip)))))"

section \<open>Analytical handlers\<close>

text \<open>
  A handler gets the table by reference, so the model returns, with the response, the
  table as the handler leaves it.  The emoji of the responses are written as their UTF-8
  bytes.
\<close>

definition emoji_bar_chart :: string where
  "emoji_bar_chart = [CHR 0xF0, CHR 0x9F, CHR 0x93, CHR 0x8A]"

definition emoji_chart_up :: string where
  "emoji_chart_up = [CHR 0xF0, CHR 0x9F, CHR 0x93, CHR 0x88]"

definition emoji_magnifier :: string where
  "emoji_magnifier = [CHR 0xF0, CHR 0x9F, CHR 0x94, CHR 0x8D]"

definition emoji_cross :: string where
  "emoji_cross = [CHR 0xE2, CHR 0x9D, CHR 0x8C]"

definition emoji_clipboard :: string where
  "emoji_clipboard = [CHR 0xF0, CHR 0x9F, CHR 0x93, CHR 0x8B]"

definition emoji_bulb :: string where
  "emoji_bulb = [CHR 0xF0, CHR 0x9F, CHR 0x92, CHR 0xA1]"

definition bullet :: string where
  "bullet = [CHR 0xE2, CHR 0x80, CHR 0xA2]"

definition quote :: string where
  "quote = [CHR 0x27]"

definition status_values :: "string list" where
  "status_values = [''critical'', ''high'', ''medium'', ''low'', ''open'', ''closed'',
     ''resolved'', ''pending'', ''active'', ''inactive'']"

text \<open>\<open>pct = (count / total) * 100\<close>\<close>

definition pct :: "nat \<Rightarrow> nat \<Rightarrow> rat" where
  "pct cnt total_records = (of_nat cnt / of_nat total_records) * 100"

text \<open>
  The value-count breakdown of a column as the Count and Comparison handlers compute it:
  \<open>for val, count in df[col].dropna().value_counts().items(): pct = (count / len(df)) * 100\<close>.
\<close>

definition breakdown :: "table \<Rightarrow> string \<Rightarrow> (cell \<times> nat \<times> rat) list" where
  "breakdown df col =
     map (\<lambda>(val, count). (val, count, pct count (df_len df)))
         (value_counts (dropna (col_values (df_get df col))))"

text \<open>\<open>f"- **{val}:** {count} ({pct:.1f}%)\n"\<close> and \<open>f"- {val}: {count} ({pct:.1f}%)\n"\<close>\<close>

definition bold_pct_line :: "pylib \<Rightarrow> cell \<times> nat \<times> rat \<Rightarrow> string" where
  "bold_pct_line lib = (\<lambda>(val, count, p).
     ''- **'' @ py_str lib val @ '':** '' @ show_nat count @ '' ('' @ fmt_fixed 1 p @ ''%)\<newline>'')"

definition plain_pct_line :: "pylib \<Rightarrow> cell \<times> nat \<times> rat \<Rightarrow> string" where
  "plain_pct_line lib = (\<lambda>(val, count, p).
     ''- '' @ py_str lib val @ '': '' @ show_nat count @ '' ('' @ fmt_fixed 1 p @ ''%)\<newline>'')"

subsection \<open>Count\<close>

text \<open>The body of the loop over \<open>mentioned_cols\<close>.\<close>

definition count_mentioned :: "pylib \<Rightarrow> string \<Rightarrow> table \<Rightarrow> string \<Rightarrow> string" where
  "count_mentioned lib user_input df col =
     (if col_in_df col df then
        (if py_in ''unique'' user_input \<or> py_in ''different'' user_input then
           emoji_bar_chart @ '' **Unique '' @ col @ '' values:** ''
             @ show_nat (nunique (col_values (df_get df col))) @ ''\<newline>\<newline>''
         else if length (dropna (col_values (df_get df col))) > 0 then
           (if length (breakdown df col) \<le> 20 then
              emoji_bar_chart @ '' **Count by '' @ col @ '':**\<newline>\<newline>''
                @ concat (map (bold_pct_line lib) (breakdown df col)) @ ''\<newline>''
            else [])
         else [])
      else [])"

text \<open>\<open>(df.loc[mask, col].astype(str).str.lower().str.strip() == val).sum()\<close>\<close>

definition value_matches :: "pylib \<Rightarrow> string \<Rightarrow> cell \<Rightarrow> bool" where
  "value_matches lib val v = (notna v \<and> py_strip (py_lower (py_str lib v)) = val)"

definition value_match_count :: "pylib \<Rightarrow> table \<Rightarrow> string \<Rightarrow> string \<Rightarrow> nat" where
  "value_match_count lib df col val =
     length (filter (value_matches lib val) (col_values (df_get df col)))"

text \<open>The body of the loop over \<open>columns\<close>: the first status value that occurs in the query
  as a word and has a positive count is reported, then the inner loop breaks.\<close>

definition count_status :: "pylib \<Rightarrow> string \<Rightarrow> table \<Rightarrow> string \<Rightarrow> string" where
  "count_status lib user_input df col =
     (if re_search_word (py_lower col) user_input then
        (case find (\<lambda>val. re_search_word val user_input \<and> col_in_df col df
                           \<and> list_ex notna (col_values (df_get df col))
                           \<and> value_match_count lib df col val > 0) status_values of
           Some val \<Rightarrow>
             emoji_bar_chart @ '' **'' @ col @ '' = '' @ quote @ py_title val @ quote @ '':** ''
               @ show_nat (value_match_count lib df col val) @ ''\<newline>\<newline>''
         | None \<Rightarrow> [])
      else [])"

definition categorical_cols :: "nat \<Rightarrow> table \<Rightarrow> string list \<Rightarrow> string list" where
  "categorical_cols limit df columns =
     filter (\<lambda>col. col_dtype (df_get df col) = Object \<and> nunique (col_values (df_get df col)) \<le> limit)
            columns"

text \<open>The body of the loop over \<open>categorical_cols[:7]\<close>.\<close>

definition count_distribution :: "pylib \<Rightarrow> table \<Rightarrow> string \<Rightarrow> string" where
  "count_distribution lib df col =
     (if length (dropna (col_values (df_get df col))) > 0 then
        (if length (take 10 (breakdown df col)) > 0 then
           ''**'' @ col @ '' Distribution:**\<newline>''
             @ concat (map (plain_pct_line lib) (take 10 (breakdown df col))) @ ''\<newline>''
         else [])
      else [])"

definition handle_comprehensive_count ::
  "pylib \<Rightarrow> string \<Rightarrow> table \<Rightarrow> string list \<Rightarrow> string list \<Rightarrow> string option \<Rightarrow> string list
     \<Rightarrow> string \<times> table" where
  "handle_comprehensive_count lib user_input df columns mentioned_cols role_hint data_sources =
     (let total_records = df_len df;
          response1 = concat (map (count_mentioned lib user_input df) mentioned_cols)
                        @ concat (map (count_status lib user_input df) columns);
          response2 =
            (if response1 = [] then
               emoji_bar_chart @ '' **Total Records:** '' @ show_nat total_records @ ''\<newline>\<newline>''
                 @ concat (map (count_distribution lib df)
                     (take 7 (sort_key (\<lambda>x. - int (length (dropna (col_values (df_get df x)))))
                                (categorical_cols 20 df columns))))
             else response1);
          response3 =
            (if length data_sources > 1 then
               response2 @ ''\<newline>*Data from: '' @ py_join '', '' data_sources @ ''*\<newline>''
             else response2)
      in (if response3 \<noteq> [] then response3
          else ''Found '' @ show_nat total_records @ '' records in total.'', df))"

subsection \<open>Statistics\<close>

text \<open>The columns the handler analyses: the mentioned numeric columns, or else the first
  five numeric columns.\<close>

definition analyzed_cols :: "table \<Rightarrow> string list \<Rightarrow> string list" where
  "analyzed_cols df mentioned_cols =
     (let numeric_cols = numeric_columns df;
          analyzed = filter (\<lambda>col. col \<in> set numeric_cols) mentioned_cols
      in if analyzed = [] then take 5 numeric_cols else analyzed)"

text \<open>The body of the loop over \<open>analyzed_cols\<close>.\<close>

definition stats_section :: "pylib \<Rightarrow> table \<Rightarrow> string \<Rightarrow> string" where
  "stats_section lib df col =
     (let col_data = dropna (col_values (df_get df col))
      in if length col_data > 0 then
           (let stats = describe lib col_data
            in ''**'' @ col @ '' Statistics:**\<newline>''
               @ ''- Count: '' @ show_nat (d_count stats) @ ''\<newline>''
               @ ''- Mean: '' @ fmt_fixed 2 (d_mean stats) @ ''\<newline>''
               @ ''- Median: '' @ fmt_fixed 2 (d_median stats) @ ''\<newline>''
               @ ''- Min: '' @ fmt_fixed 2 (d_min stats) @ ''\<newline>''
               @ ''- Max: '' @ fmt_fixed 2 (d_max stats) @ ''\<newline>''
               @ (case d_std stats of
                    Some v \<Rightarrow> ''- Std Dev: '' @ fmt_fixed 2 v @ ''\<newline>''
                  | None \<Rightarrow> [])
               @ ''\<newline>'')
         else [])"

text \<open>The body of the loop over \<open>categorical_cols[:3]\<close> when there is no numeric column.\<close>

definition stats_distribution :: "pylib \<Rightarrow> table \<Rightarrow> string \<Rightarrow> string" where
  "stats_distribution lib df col =
     (if length (dropna (col_values (df_get df col))) > 0 then
        ''**'' @ col @ '' Distribution:**\<newline>''
          @ concat (map (plain_pct_line lib) (take 5 (breakdown df col))) @ ''\<newline>''
      else [])"

definition handle_comprehensive_statistics ::
  "pylib \<Rightarrow> string \<Rightarrow> table \<Rightarrow> string list \<Rightarrow> string list \<Rightarrow> string option \<Rightarrow> string \<times> table" where
  "handle_comprehensive_statistics lib user_input df columns mentioned_cols role_hint =
     (let response = emoji_chart_up @ '' **Statistical Analysis:**\<newline>\<newline>''
      in (if analyzed_cols df mentioned_cols \<noteq> [] then
            response @ concat (map (stats_section lib df) (analyzed_cols df mentioned_cols))
          else
            response @ ''No numeric columns found for statistical analysis.\<newline>''
              @ concat (map (stats_distribution lib df) (take 3 (categorical_cols 20 df columns))),
          df))"

subsection \<open>Comparison\<close>

text \<open>The categorical columns the handler compares.\<close>

definition comparison_cols :: "table \<Rightarrow> string list \<Rightarrow> string list \<Rightarrow> string list" where
  "comparison_cols df columns mentioned_cols =
     (if mentioned_cols \<noteq> [] then
        filter (\<lambda>col. col \<in> set (categorical_cols 20 df columns)) mentioned_cols
      else categorical_cols 20 df columns)"

definition comparison_section :: "pylib \<Rightarrow> table \<Rightarrow> string \<Rightarrow> string" where
  "comparison_section lib df col =
     (if length (dropna (col_values (df_get df col))) > 0 then
        ''**'' @ col @ '' Comparison:**\<newline>''
          @ concat (map (bold_pct_line lib) (breakdown df col)) @ ''\<newline>''
      else [])"

text \<open>\<open>f"- **{col}:** Min={df[col].min():.2f}, Max={df[col].max():.2f}, Avg={df[col].mean():.2f}\n"\<close>\<close>

definition min_max_avg_line :: "pylib \<Rightarrow> table \<Rightarrow> string \<Rightarrow> string" where
  "min_max_avg_line lib df col =
     ''- **'' @ col @ '':** Min='' @ fmt_opt 2 (series_min (col_values (df_get df col)))
       @ '', Max='' @ fmt_opt 2 (series_max (col_values (df_get df col)))
       @ '', Avg='' @ fmt_opt 2 (series_mean lib (col_values (df_get df col))) @ ''\<newline>''"

definition handle_comprehensive_comparison ::
  "pylib \<Rightarrow> string \<Rightarrow> table \<Rightarrow> string list \<Rightarrow> string list \<Rightarrow> string option \<Rightarrow> string \<times> table" where
  "handle_comprehensive_comparison lib user_input df columns mentioned_cols role_hint =
     (let response = emoji_bar_chart @ '' **Comparison Analysis:**\<newline>\<newline>''
      in (if comparison_cols df columns mentioned_cols \<noteq> [] then
            response @ concat (map (comparison_section lib df)
                                 (take 3 (comparison_cols df columns mentioned_cols)))
          else if numeric_columns df \<noteq> [] then
            response @ ''**Numeric Column Comparisons:**\<newline>''
              @ concat (map (min_max_avg_line lib df) (take 3 (numeric_columns df))) @ ''\<newline>''
          else response,
          df))"

subsection \<open>Search\<close>

definition stop_words :: "string list" where
  "stop_words = [''the'', ''a'', ''an'', ''and'', ''or'', ''but'', ''in'', ''on'', ''at'', ''to'',
     ''for'', ''of'', ''with'', ''by'', ''from'', ''is'', ''are'', ''was'', ''were'', ''be'',
     ''been'', ''being'', ''have'', ''has'', ''had'', ''do'', ''does'', ''did'', ''will'',
     ''would'', ''should'', ''could'', ''may'', ''might'', ''must'', ''can'', ''find'', ''show'',
     ''search'', ''get'', ''display'']"

definition search_terms :: "string \<Rightarrow> string list" where
  "search_terms user_input =
     filter (\<lambda>term. term \<notin> set stop_words \<and> length term > 2)
            (re_findall_words (py_lower user_input))"

text \<open>
  \<open>df[col].astype(str).str.lower().str.contains("|".join(search_terms), ...)\<close>: the terms
  are runs of word characters, so the pattern matches where one of them is a substring.
\<close>

definition search_mask :: "pylib \<Rightarrow> string list \<Rightarrow> table \<Rightarrow> string \<Rightarrow> bool list" where
  "search_mask lib terms df col =
     map (\<lambda>v. list_ex (\<lambda>term. py_in term (py_lower (py_str lib v))) terms)
         (col_values (df_get df col))"

text \<open>The loop over the text columns, which collects the matching rows.\<close>

definition search_matches :: "pylib \<Rightarrow> string list \<Rightarrow> table \<Rightarrow> string list \<Rightarrow> table" where
  "search_matches lib terms df columns =
     foldl (\<lambda>matches col.
              if list_ex id (search_mask lib terms df col)
              then pd_concat matches (select_rows (search_mask lib terms df col) df)
              else matches)
           empty_frame
           (filter (\<lambda>col. col_dtype (df_get df col) = Object) columns)"

definition search_record :: "pylib \<Rightarrow> string list \<Rightarrow> int \<times> (string \<times> cell) list \<Rightarrow> string" where
  "search_record lib columns = (\<lambda>(idx, row).
     ''**Record '' @ show_int (idx + 1) @ '':**\<newline>''
       @ py_join '' - '' (take 3 (key_info lib 5 columns row)) @ ''\<newline>\<newline>'')"

definition handle_comprehensive_search ::
  "pylib \<Rightarrow> string \<Rightarrow> table \<Rightarrow> string list \<Rightarrow> string list \<Rightarrow> string option \<Rightarrow> string \<times> table" where
  "handle_comprehensive_search lib user_input df columns mentioned_cols role_hint =
     (if search_terms user_input = [] then
        (''Please provide specific search terms. For example: '' @ quote
           @ ''Find incidents with high severity'' @ quote, df)
      else
        (let found = search_matches lib (search_terms user_input) df columns;
             matches = (if \<not> df_empty found then drop_duplicates found else found)
         in (if \<not> df_empty matches then
               emoji_magnifier @ '' **Found '' @ show_nat (df_len matches) @ '' matching records:**\<newline>\<newline>''
                 @ concat (map (search_record lib columns) (iterrows (df_head 10 matches)))
                 @ (if df_len matches > 10 then
                      ''... and '' @ show_nat (df_len matches - 10) @ '' more results.\<newline>''
                    else [])
             else
               emoji_cross @ '' No records found matching: '' @ py_join '', '' (search_terms user_input)
                 @ ''\<newline>\<newline>''
                 @ ''Try different search terms or ask about specific columns or values.'',
             df)))"

subsection \<open>Filter\<close>

text \<open>
  The first loop of the handler, over \<open>columns\<close>: for a column named in the query, the
  first status value that occurs in the query as a word and that some row of \<open>df\<close> holds
  is applied to the frame filtered so far, then the inner loop breaks.
\<close>

definition status_filter_step ::
  "pylib \<Rightarrow> string \<Rightarrow> table \<Rightarrow> table \<times> string list \<Rightarrow> string \<Rightarrow> table \<times> string list" where
  "status_filter_step lib user_input df = (\<lambda>(filtered_df, filters_applied) col.
     if re_search_word (py_lower col) user_input then
       (case find (\<lambda>val. re_search_word val user_input \<and> col_in_df col df
                          \<and> list_ex notna (col_values (df_get df col))
                          \<and> list_ex (value_matches lib val) (col_values (df_get df col)))
                  status_values of
          Some val \<Rightarrow>
            (bool_index filtered_df (index df)
               (map (value_matches lib val) (col_values (df_get df col))),
             filters_applied @ [col @ '' = '' @ val])
        | None \<Rightarrow> (filtered_df, filters_applied))
     else (filtered_df, filters_applied))"

definition greater_asked :: "string \<Rightarrow> bool" where
  "greater_asked user_input =
     (py_in ''greater than'' user_input \<or> py_in ''more than'' user_input \<or> py_in ''>'' user_input)"

definition less_asked :: "string \<Rightarrow> bool" where
  "less_asked user_input =
     (py_in ''less than'' user_input \<or> py_in ''smaller than'' user_input \<or> py_in ''<'' user_input)"

text \<open>\<open>df[col].notna() & (df[col] > threshold)\<close> and its counterpart with \<open><\<close>\<close>

definition above_mask :: "table \<Rightarrow> string \<Rightarrow> rat \<Rightarrow> bool list" where
  "above_mask df col threshold =
     map (\<lambda>v. case num_of v of Some x \<Rightarrow> threshold < x | None \<Rightarrow> False) (col_values (df_get df col))"

definition below_mask :: "table \<Rightarrow> string \<Rightarrow> rat \<Rightarrow> bool list" where
  "below_mask df col threshold =
     map (\<lambda>v. case num_of v of Some x \<Rightarrow> x < threshold | None \<Rightarrow> False) (col_values (df_get df col))"

text \<open>
  The second loop, over the numeric columns: the \<open>break\<close> after an applied threshold leaves
  this loop, so at most one numeric filter is applied.
\<close>

fun numeric_filter_loop ::
  "pylib \<Rightarrow> string \<Rightarrow> table \<Rightarrow> table \<times> string list \<Rightarrow> string list \<Rightarrow> table \<times> string list" where
  "numeric_filter_loop lib user_input df st [] = st"
| "numeric_filter_loop lib user_input df st (col # rest) =
     (if re_search_word (py_lower col) user_input then
        (if greater_asked user_input then
           (case first_number user_input of
              Some threshold \<Rightarrow>
                (if list_ex id (above_mask df col threshold) then
                   (bool_index (fst st) (index df) (above_mask df col threshold),
                    snd st @ [col @ '' > '' @ float_str lib threshold])
                 else numeric_filter_loop lib user_input df st rest)
            | None \<Rightarrow> numeric_filter_loop lib user_input df st rest)
         else if less_asked user_input then
           (case first_number user_input of
              Some threshold \<Rightarrow>
                (if list_ex id (below_mask df col threshold) then
                   (bool_index (fst st) (index df) (below_mask df col threshold),
                    snd st @ [col @ '' < '' @ float_str lib threshold])
                 else numeric_filter_loop lib user_input df st rest)
            | None \<Rightarrow> numeric_filter_loop lib user_input df st rest)
         else numeric_filter_loop lib user_input df st rest)
      else numeric_filter_loop lib user_input df st rest)"

text \<open>Both loops: the filtered frame and the list \<open>filters_applied\<close>.\<close>

definition apply_filters :: "pylib \<Rightarrow> string \<Rightarrow> table \<Rightarrow> string list \<Rightarrow> table \<times> string list" where
  "apply_filters lib user_input df columns =
     numeric_filter_loop lib user_input df
       (foldl (status_filter_step lib user_input df) (df, []) columns)
       (numeric_columns df)"

definition record_line :: "pylib \<Rightarrow> string list \<Rightarrow> int \<times> (string \<times> cell) list \<Rightarrow> string" where
  "record_line lib columns = (\<lambda>(idx, row).
     ''**Record '' @ show_int (idx + 1) @ '':** ''
       @ py_join '' | '' (take 3 (key_info lib 4 columns row)) @ ''\<newline>'')"

definition handle_comprehensive_filter ::
  "pylib \<Rightarrow> string \<Rightarrow> table \<Rightarrow> string list \<Rightarrow> string list \<Rightarrow> string option \<Rightarrow> string \<times> table" where
  "handle_comprehensive_filter lib user_input df columns mentioned_cols role_hint =
     (let (filtered_df, filters_applied) = apply_filters lib user_input df columns
      in if filters_applied \<noteq> [] then
           (emoji_magnifier @ '' **Filtered Results ('' @ show_nat (df_len filtered_df)
              @ '' records):**\<newline>\<newline>''
              @ ''Filters applied: '' @ py_join '', '' filters_applied @ ''\<newline>\<newline>''
              @ concat (map (record_line lib columns) (iterrows (df_head 10 filtered_df)))
              @ (if df_len filtered_df > 10 then
                   ''\<newline>... and '' @ show_nat (df_len filtered_df - 10) @ '' more records.\<newline>''
                 else []),
            df)
         else handle_comprehensive_search lib user_input df columns mentioned_cols role_hint)"

subsection \<open>Trend\<close>

definition date_keywords :: "string list" where
  "date_keywords = [''date'', ''time'', ''timestamp'', ''created'', ''updated'']"

text \<open>\<open>pd.to_datetime(series, errors="raise")\<close> succeeds when every value that is not missing
  can be parsed; with \<open>errors="coerce"\<close> a value that cannot be parsed becomes missing.\<close>

definition parses_as_dates :: "pylib \<Rightarrow> cell list \<Rightarrow> bool" where
  "parses_as_dates lib vs = list_all (\<lambda>v. v = Null \<or> parse_datetime lib v \<noteq> None) vs"

definition coerce_datetime :: "pylib \<Rightarrow> cell \<Rightarrow> cell" where
  "coerce_datetime lib v =
     (if v = Null then Null
      else case parse_datetime lib v of Some t \<Rightarrow> Time t | None \<Rightarrow> Null)"

definition to_datetime_coerce :: "pylib \<Rightarrow> column \<Rightarrow> column" where
  "to_datetime_coerce lib c =
     \<lparr>col_dtype = Datetime64, col_values = map (coerce_datetime lib) (col_values c)\<rparr>"

text \<open>The date columns: by name, or else by the content of the first ten values.\<close>

definition date_cols :: "pylib \<Rightarrow> table \<Rightarrow> string list \<Rightarrow> string list" where
  "date_cols lib df columns =
     (let by_name = filter (\<lambda>col. list_ex (\<lambda>keyword. py_in keyword (py_lower col)) date_keywords)
                           columns
      in if by_name = [] then
           filter (\<lambda>col. parses_as_dates lib (take 10 (col_values (df_get df col)))) columns
         else by_name)"

text \<open>The rows of a frame at the given positions, and
  \<open>df.sort_values(date_col, na_position="last")\<close>: the rows with a date in ascending order
  (rows of equal date in their given order), then the rows without.\<close>

definition take_rows :: "nat list \<Rightarrow> table \<Rightarrow> table" where
  "take_rows ps df =
     \<lparr>index = map (\<lambda>i. index df ! i) ps,
      cols = map (\<lambda>(n, c). (n, c\<lparr>col_values := map (cell_at c) ps\<rparr>)) (cols df)\<rparr>"

fun time_of :: "cell \<Rightarrow> int option" where
  "time_of (Time t) = Some t"
| "time_of _ = None"

definition sort_values_by_date :: "table \<Rightarrow> string \<Rightarrow> table" where
  "sort_values_by_date df date_col =
     (let c = df_get df date_col;
          dated = filter (\<lambda>i. time_of (cell_at c i) \<noteq> None) [0..<df_len df];
          undated = filter (\<lambda>i. time_of (cell_at c i) = None) [0..<df_len df]
      in take_rows (sort_key (\<lambda>i. the (time_of (cell_at c i))) dated @ undated) df)"

definition trend_record :: "pylib \<Rightarrow> string list \<Rightarrow> int \<times> (string \<times> cell) list \<Rightarrow> string" where
  "trend_record lib columns = (\<lambda>(idx, row).
     ''- '' @ py_join '' | '' (take 3 (key_info lib 4 columns row)) @ ''\<newline>'')"

text \<open>The text of the earliest and of the latest date of a column (\<open>NaT\<close> without dates).\<close>

definition times_of :: "cell list \<Rightarrow> int list" where
  "times_of vs = List.map_filter time_of vs"

definition date_min_str :: "pylib \<Rightarrow> cell list \<Rightarrow> string" where
  "date_min_str lib vs =
     (if times_of vs = [] then ''NaT''
      else time_str lib (foldl min (hd (times_of vs)) (tl (times_of vs))))"

definition date_max_str :: "pylib \<Rightarrow> cell list \<Rightarrow> string" where
  "date_max_str lib vs =
     (if times_of vs = [] then ''NaT''
      else time_str lib (foldl max (hd (times_of vs)) (tl (times_of vs))))"

text \<open>\<open>df_sorted[date_col].dt.to_period("M").value_counts().sort_index()\<close>: the months that
  occur, in ascending order, each with the number of its rows.\<close>

definition period_counts :: "pylib \<Rightarrow> cell list \<Rightarrow> (int \<times> nat) list" where
  "period_counts lib vs =
     (let periods = map (period_of lib) (times_of vs)
      in map (\<lambda>p. (p, count_list periods p)) (sort (remdups periods)))"

definition period_line :: "pylib \<Rightarrow> int \<times> nat \<Rightarrow> string" where
  "period_line lib = (\<lambda>(period, cnt).
     ''- '' @ period_str lib period @ '': '' @ show_nat cnt @ '' records\<newline>'')"

text \<open>The handler writes the parsed dates into the date column of the table it is given.\<close>

definition handle_comprehensive_trend ::
  "pylib \<Rightarrow> string \<Rightarrow> table \<Rightarrow> string list \<Rightarrow> string list \<Rightarrow> string option \<Rightarrow> string \<times> table" where
  "handle_comprehensive_trend lib user_input df columns mentioned_cols role_hint =
     (case date_cols lib df columns of
        [] \<Rightarrow> (''No date/time columns found for trend analysis.'', df)
      | date_col # others \<Rightarrow>
          (let df1 = df_set df date_col (to_datetime_coerce lib (df_get df date_col));
               df_sorted = sort_values_by_date df1 date_col;
               response = emoji_chart_up @ '' **Trend Analysis:**\<newline>\<newline>''
           in (if py_in ''recent'' user_input \<or> py_in ''latest'' user_input
                  \<or> py_in ''newest'' user_input then
                 response @ ''**Most Recent Records:**\<newline>\<newline>''
                   @ concat (map (trend_record lib columns) (iterrows (df_tail 10 df_sorted)))
               else if py_in ''oldest'' user_input \<or> py_in ''earliest'' user_input then
                 response @ ''**Oldest Records:**\<newline>\<newline>''
                   @ concat (map (trend_record lib columns) (iterrows (df_head 10 df_sorted)))
               else
                 response @ ''**Date Range:** ''
                   @ date_min_str lib (col_values (df_get df_sorted date_col)) @ '' to ''
                   @ date_max_str lib (col_values (df_get df_sorted date_col)) @ ''\<newline>\<newline>''
                   @ ''**Total Records:** '' @ show_nat (df_len df) @ ''\<newline>''
                   @ ''**Records per Period:**\<newline>''
                   @ concat (map (period_line lib)
                       (let pc = period_counts lib (col_values (df_get df_sorted date_col))
                        in drop (length pc - 6) pc)),
               df1)))"

subsection \<open>Value lookup\<close>

text \<open>The body of the loop over \<open>columns\<close>.\<close>

definition value_section :: "pylib \<Rightarrow> string \<Rightarrow> table \<Rightarrow> string \<Rightarrow> string" where
  "value_section lib user_input df col =
     (if re_search_word (py_lower col) user_input then
        (let unique_vals = unique (dropna (col_values (df_get df col)))
         in if length unique_vals > 0 then
              (if length unique_vals \<le> 20 then
                 ''**'' @ col @ '' values:**\<newline>''
                   @ concat (map (\<lambda>val. ''- '' @ py_str lib val @ ''\<newline>'') (take 15 unique_vals))
                   @ (if length unique_vals > 15 then
                        ''... and '' @ show_nat (length unique_vals - 15) @ '' more\<newline>''
                      else [])
                   @ ''\<newline>''
               else
                 ''**'' @ col @ '':** '' @ show_nat (length unique_vals) @ '' unique values\<newline>''
                   @ ''Sample values: '' @ py_join '', '' (map (py_str lib) (take 10 unique_vals))
                   @ ''\<newline>\<newline>'')
            else [])
      else [])"

text \<open>\<open>len(response.split("\n"))\<close>\<close>

definition count_lines :: "string \<Rightarrow> nat" where
  "count_lines s = Suc (length (filter (\<lambda>c. c = CHR ''\<newline>'') s))"

definition handle_value_query ::
  "pylib \<Rightarrow> string \<Rightarrow> table \<Rightarrow> string list \<Rightarrow> string list \<Rightarrow> string option \<Rightarrow> string \<times> table" where
  "handle_value_query lib user_input df columns mentioned_cols role_hint =
     (let response = emoji_clipboard @ '' **Value Query Results:**\<newline>\<newline>''
                       @ concat (map (value_section lib user_input df) columns)
      in if py_in ''value'' (py_lower response) \<and> count_lines response < 5 then
           handle_comprehensive_search lib user_input df columns mentioned_cols role_hint
         else (response, df))"

subsection \<open>List\<close>

definition handle_list_query ::
  "pylib \<Rightarrow> string \<Rightarrow> table \<Rightarrow> string list \<Rightarrow> string list \<Rightarrow> string option \<Rightarrow> string \<times> table" where
  "handle_list_query lib user_input df columns mentioned_cols role_hint =
     (let display_limit = 20
      in (emoji_clipboard @ '' **All Records ('' @ show_nat (df_len df) @ '' total):**\<newline>\<newline>''
            @ concat (map (record_line lib columns) (iterrows (df_head display_limit df)))
            @ (if df_len df > display_limit then
                 ''\<newline>... and '' @ show_nat (df_len df - display_limit) @ '' more records.\<newline>''
               else []),
          df))"

subsection \<open>Summary\<close>

definition dtype_str :: "dtype \<Rightarrow> string" where
  "dtype_str d =
     (case d of Int64 \<Rightarrow> ''int64'' | Float64 \<Rightarrow> ''float64'' | Object \<Rightarrow> ''object''
      | Datetime64 \<Rightarrow> ''datetime64[ns]'')"

text \<open>The body of the loop over \<open>columns[:20]\<close>.\<close>

definition summary_column :: "table \<Rightarrow> string list \<Rightarrow> string \<Rightarrow> string" where
  "summary_column df data_sources col =
     (let vs = col_values (df_get df col);
          non_null = length (filter notna vs);
          pct_null = pct (length (filter (\<lambda>v. \<not> notna v) vs)) (df_len df);
          source_hint = (if pct_null > 50 \<and> length data_sources > 1
                         then '' (mostly from unmatching data)'' else [])
      in ''- **'' @ col @ '':** '' @ dtype_str (col_dtype (df_get df col)) @ '', ''
           @ show_nat non_null @ '' non-null, '' @ show_nat (nunique vs) @ '' unique values''
           @ source_hint @ ''\<newline>'')"

text \<open>\<open>', '.join([f'{k}({v})' for k, v in df[col].value_counts().head(n).items()])\<close>\<close>

definition top_values :: "pylib \<Rightarrow> nat \<Rightarrow> table \<Rightarrow> string \<Rightarrow> string" where
  "top_values lib n df col =
     py_join '', '' (map (\<lambda>(k, v). py_str lib k @ ''('' @ show_nat v @ '')'')
                        (take n (value_counts (dropna (col_values (df_get df col))))))"

definition handle_comprehensive_summary ::
  "pylib \<Rightarrow> table \<Rightarrow> string list \<Rightarrow> string option \<Rightarrow> string list \<Rightarrow> string \<times> table" where
  "handle_comprehensive_summary lib df columns role_hint data_sources =
     (emoji_clipboard @ '' **Comprehensive Data Summary:**\<newline>\<newline>''
        @ ''- **Total Records:** '' @ show_nat (df_len df) @ ''\<newline>''
        @ ''- **Total Columns:** '' @ show_nat (length columns) @ ''\<newline>''
        @ (if length data_sources > 1 then
             ''- **Data Sources:** '' @ py_join '', '' data_sources @ ''\<newline>''
           else [])
        @ ''\<newline>**Column Information:**\<newline>''
        @ concat (map (summary_column df data_sources) (take 20 columns))
        @ (if length columns > 20 then
             ''\<newline>... and '' @ show_nat (length columns - 20) @ '' more columns.\<newline>''
           else [])
        @ (if numeric_columns df \<noteq> [] then
             ''\<newline>**Numeric Column Statistics:**\<newline>''
               @ concat (map (min_max_avg_line lib df) (take 5 (numeric_columns df)))
           else [])
        @ (if categorical_cols 10 df columns \<noteq> [] then
             ''\<newline>**Categorical Distributions:**\<newline>''
               @ concat (map (\<lambda>col. ''- **'' @ col @ '':** '' @ top_values lib 3 df col @ ''\<newline>'')
                             (take 3 (categorical_cols 10 df columns)))
           else []),
      df)"

subsection \<open>General fallback\<close>

text \<open>\<open>{df[col].min()}\<close> without a format: an integer column prints an integer.\<close>

definition plain_num_str :: "pylib \<Rightarrow> dtype \<Rightarrow> rat option \<Rightarrow> string" where
  "plain_num_str lib d x =
     (case x of None \<Rightarrow> ''nan''
      | Some r \<Rightarrow> (if d = Int64 then show_int \<lfloor>r\<rfloor> else float_str lib r))"

text \<open>The body of the loop over \<open>mentioned_cols[:5]\<close>.\<close>

definition fallback_column :: "pylib \<Rightarrow> table \<Rightarrow> string \<Rightarrow> string" where
  "fallback_column lib df col =
     (if col_in_df col df then
        (let c = df_get df col; vs = col_values c
         in ''**'' @ col @ '':**\<newline>''
              @ ''- Unique values: '' @ show_nat (nunique vs) @ ''\<newline>''
              @ ''- Non-null records: '' @ show_nat (length (filter notna vs)) @ ''\<newline>''
              @ (if col_dtype c = Int64 \<or> col_dtype c = Float64 then
                   ''- Min: '' @ plain_num_str lib (col_dtype c) (series_min vs)
                     @ '', Max: '' @ plain_num_str lib (col_dtype c) (series_max vs)
                     @ '', Avg: '' @ fmt_opt 2 (series_mean lib vs) @ ''\<newline>''
                 else ''- Top values: '' @ top_values lib 5 df col @ ''\<newline>'')
              @ ''\<newline>'')
      else [])"

definition help_menu :: string where
  "help_menu =
     emoji_bulb @ '' **I can help you with:**\<newline>\<newline>''
       @ bullet @ '' **Counts:** '' @ quote @ ''How many records are there?'' @ quote @ ''\<newline>''
       @ bullet @ '' **Statistics:** '' @ quote @ ''What'' @ quote @ ''s the average of [column]?''
           @ quote @ ''\<newline>''
       @ bullet @ '' **Search:** '' @ quote @ ''Find records with [value]'' @ quote @ ''\<newline>''
       @ bullet @ '' **Filters:** '' @ quote @ ''Show records where [column] = [value]'' @ quote
           @ ''\<newline>''
       @ bullet @ '' **Comparisons:** '' @ quote @ ''Compare [column] values'' @ quote @ ''\<newline>''
       @ bullet @ '' **Trends:** '' @ quote @ ''Show me recent records'' @ quote @ ''\<newline>''
       @ bullet @ '' **Lists:** '' @ quote @ ''List all [column] values'' @ quote @ ''\<newline>''
       @ bullet @ '' **Summaries:** '' @ quote @ ''Give me an overview'' @ quote @ ''\<newline>\<newline>''"

definition handle_intelligent_fallback ::
  "pylib \<Rightarrow> string \<Rightarrow> table \<Rightarrow> string list \<Rightarrow> string option \<Rightarrow> string list \<Rightarrow> string \<times> table" where
  "handle_intelligent_fallback lib user_input df columns role_hint data_sources =
     (let mentioned_cols = fallback_mentioned_cols user_input columns
      in (if mentioned_cols \<noteq> [] then
            emoji_bar_chart @ '' **Information about mentioned columns:**\<newline>\<newline>''
              @ concat (map (fallback_column lib df) (take 5 mentioned_cols))
          else
            help_menu @ ''**Available columns:** '' @ py_join '', '' (take 10 columns)
              @ (if length columns > 10 then
                   '' ... and '' @ show_nat (length columns - 10) @ '' more''
                 else [])
              @ ''\<newline>\<newline>**Total records:** '' @ show_nat (df_len df)
              @ (if length data_sources > 1 then
                   ''\<newline>**Data sources:** '' @ py_join '', '' data_sources
                 else []),
          df))"

section \<open>Query analysis and dispatch\<close>

definition analyze_and_answer ::
  "pylib \<Rightarrow> string \<Rightarrow> table \<Rightarrow> string list \<Rightarrow> string option \<Rightarrow> string list \<Rightarrow> string \<times> table" where
  "analyze_and_answer lib user_input df columns role_hint data_sources =
     (let mentioned = mentioned_columns user_input columns;
          question_type = detect_question_type user_input df columns
      in if question_type = ''count'' then
           handle_comprehensive_count lib user_input df columns mentioned role_hint data_sources
         else if question_type = ''statistics'' then
           handle_comprehensive_statistics lib user_input df columns mentioned role_hint
         else if question_type = ''search'' then
           handle_comprehensive_search lib user_input df columns mentioned role_hint
         else if question_type = ''filter'' then
           handle_comprehensive_filter lib user_input df columns mentioned role_hint
         else if question_type = ''comparison'' then
           handle_comprehensive_comparison lib user_input df columns mentioned role_hint
         else if question_type = ''trend'' then
           handle_comprehensive_trend lib user_input df columns mentioned role_hint
         else if question_type = ''value'' then
           handle_value_query lib user_input df columns mentioned role_hint
         else if question_type = ''list'' then
           handle_list_query lib user_input df columns mentioned role_hint
         else if question_type = ''summary'' then
           handle_comprehensive_summary lib df columns role_hint data_sources
         else handle_intelligent_fallback lib user_input df columns role_hint data_sources)"

section \<open>Response generation\<close>

text \<open>
  The caller and \<open>generate_response\<close> share DataFrame objects, so the tables live in a
  store and are passed by reference; an argument that is \<open>None\<close> in Python is \<open>None\<close> here.
\<close>

type_synonym store = "table list"

definition alloc :: "store \<Rightarrow> table \<Rightarrow> store \<times> nat" where
  "alloc h t = (h @ [t], length h)"

text \<open>\<open>for col in df.columns: column_info[col] = ...\<close> for the two sources\<close>

definition track_main :: "table \<Rightarrow> (string \<times> string) list" where
  "track_main df = foldl (\<lambda>info col. AList.update col ''main database'' info) [] (df_columns df)"

definition track_unmatching :: "(string \<times> string) list \<Rightarrow> table \<Rightarrow> (string \<times> string) list" where
  "track_unmatching column_info df =
     foldl (\<lambda>info col. if map_of info col = None
                        then AList.update col ''unmatching uploaded data'' info
                        else AList.update col ''both sources'' info)
           column_info (df_columns df)"

text \<open>\<open>combined_df[col] = combined_df[col].fillna("")\<close> for every object column\<close>

definition fillna_object :: "table \<Rightarrow> table" where
  "fillna_object df =
     df\<lparr>cols := map (\<lambda>(n, c). if col_dtype c = Object
                               then (n, c\<lparr>col_values := map (\<lambda>v. if v = Null then Str [] else v)
                                                              (col_values c)\<rparr>)
                               else (n, c))
                    (cols df)\<rparr>"

text \<open>
  The Table Combiner, the first part of \<open>generate_response\<close>: it copies each usable
  source into the store and gives the reference of the combined table, the source labels
  and the column provenance; \<open>None\<close> when no source is usable.  (\<open>pd.concat\<close> raises only
  on frames with repeated column names; the handler for that exception is outside the
  model, whose well-formed tables have distinct column names.)
\<close>

definition combine_data_sources ::
  "store \<Rightarrow> nat option \<Rightarrow> nat option
     \<Rightarrow> (store \<times> nat \<times> string list \<times> (string \<times> string) list) option" where
  "combine_data_sources h context_df unmatching_df =
     (let (h1, all_data1, sources1, info1) =
            (case context_df of
               Some r \<Rightarrow>
                 (if \<not> df_empty (h ! r) then
                    (fst (alloc h (h ! r)), [snd (alloc h (h ! r))], [''main database''],
                     track_main (h ! r))
                  else (h, [], [], []))
             | None \<Rightarrow> (h, [], [], []));
          (h2, all_data2, sources2, info2) =
            (case unmatching_df of
               Some r \<Rightarrow>
                 (if \<not> df_empty (h1 ! r) then
                    (fst (alloc h1 (h1 ! r)), all_data1 @ [snd (alloc h1 (h1 ! r))],
                     sources1 @ [''unmatching uploaded data''], track_unmatching info1 (h1 ! r))
                  else (h1, all_data1, sources1, info1))
             | None \<Rightarrow> (h1, all_data1, sources1, info1))
      in case all_data2 of
           [] \<Rightarrow> None
         | [a] \<Rightarrow> Some (h2, a, sources2, info2)
         | a # b # rest \<Rightarrow>
             Some (fst (alloc h2 (fillna_object (pd_concat (h2 ! a) (h2 ! b)))),
                   snd (alloc h2 (fillna_object (pd_concat (h2 ! a) (h2 ! b)))),
                   sources2, info2))"

definition no_data_message :: string where
  "no_data_message =
     ''I don'' @ quote @ ''t have access to any data right now. ''
       @ ''Please make sure data is loaded in the dashboard.''"

definition generate_response ::
  "pylib \<Rightarrow> store \<Rightarrow> string \<Rightarrow> nat option \<Rightarrow> string option \<Rightarrow> nat option \<Rightarrow> string \<times> store" where
  "generate_response lib h user_input context_df role_hint unmatching_df =
     (case combine_data_sources h context_df unmatching_df of
        None \<Rightarrow> (no_data_message, h)
      | Some (h', combined_df, data_sources, column_info) \<Rightarrow>
          (let user_input_lower = py_strip (py_lower user_input);
               available_columns = df_columns (h' ! combined_df);
               (response, df') = analyze_and_answer lib user_input_lower (h' ! combined_df)
                                   available_columns role_hint data_sources
           in (response, h'[combined_df := df'])))"

text \<open>The test \<open>df is not None and not df.empty\<close> that admits a source.\<close>

definition usable :: "store \<Rightarrow> nat option \<Rightarrow> bool" where
  "usable h r = (case r of None \<Rightarrow> False | Some i \<Rightarrow> \<not> df_empty (h ! i))"

section \<open>Derived notions used in the properties\<close>

text \<open>The percentages of a column's breakdown as \<open>{pct:.1f}\<close> prints them.\<close>

definition shown_percentages :: "table \<Rightarrow> string \<Rightarrow> rat list" where
  "shown_percentages df col = map (shown_value 1 \<circ> snd \<circ> snd) (breakdown df col)"

text \<open>The table as the Trend handler leaves it: the first date column, when there is
  one, holds its values parsed as dates.\<close>

definition trend_target :: "pylib \<Rightarrow> table \<Rightarrow> string list \<Rightarrow> string option" where
  "trend_target lib df columns =
     (case date_cols lib df columns of [] \<Rightarrow> None | date_col # others \<Rightarrow> Some date_col)"

definition trend_effect :: "pylib \<Rightarrow> table \<Rightarrow> string list \<Rightarrow> table" where
  "trend_effect lib df columns =
     (case trend_target lib df columns of
        None \<Rightarrow> df
      | Some date_col \<Rightarrow> df_set df date_col (to_datetime_coerce lib (df_get df date_col)))"

text \<open>
  A constraint of the Filter handler: a column holds a status value, or a numeric column
  is above or below a threshold.  Its label is the entry of \<open>filters_applied\<close>, its mask
  the boolean series the handler builds for it on the table it was given.
\<close>

datatype constraint = Equals string string | GreaterThan string rat | LessThan string rat

fun constraint_label :: "pylib \<Rightarrow> constraint \<Rightarrow> string" where
  "constraint_label lib (Equals col val) = col @ '' = '' @ val"
| "constraint_label lib (GreaterThan col threshold) = col @ '' > '' @ float_str lib threshold"
| "constraint_label lib (LessThan col threshold) = col @ '' < '' @ float_str lib threshold"

fun constraint_mask :: "pylib \<Rightarrow> table \<Rightarrow> constraint \<Rightarrow> bool list" where
  "constraint_mask lib df (Equals col val) = map (value_matches lib val) (col_values (df_get df col))"
| "constraint_mask lib df (GreaterThan col threshold) = above_mask df col threshold"
| "constraint_mask lib df (LessThan col threshold) = below_mask df col threshold"

text \<open>
  What the query asks for: a column of the table and a status value, both occurring in
  the query as words; or a numeric column occurring in the query as a word, a comparison
  phrase (the handler looks for the greater-than phrases first) and the first number of
  the query as the threshold.
\<close>

fun constraint_asked :: "string \<Rightarrow> table \<Rightarrow> constraint \<Rightarrow> bool" where
  "constraint_asked user_input df (Equals col val) =
     (col \<in> set (df_columns df) \<and> re_search_word (py_lower col) user_input
      \<and> val \<in> set status_values \<and> re_search_word val user_input)"
| "constraint_asked user_input df (GreaterThan col threshold) =
     (col \<in> set (numeric_columns df) \<and> re_search_word (py_lower col) user_input
      \<and> greater_asked user_input \<and> first_number user_input = Some threshold)"
| "constraint_asked user_input df (LessThan col threshold) =
     (col \<in> set (numeric_columns df) \<and> re_search_word (py_lower col) user_input
      \<and> \<not> greater_asked user_input \<and> less_asked user_input
      \<and> first_number user_input = Some threshold)"

text \<open>A constraint is met when its mask holds in some row of the table.\<close>

definition constraint_met :: "pylib \<Rightarrow> table \<Rightarrow> constraint \<Rightarrow> bool" where
  "constraint_met lib df c = list_ex id (constraint_mask lib df c)"

text \<open>
  The constraint of a column in the first loop: the first status value that the query
  has as a word and that some row of the table holds in the column.
\<close>

definition status_constraint :: "pylib \<Rightarrow> string \<Rightarrow> table \<Rightarrow> string \<Rightarrow> constraint option" where
  "status_constraint lib user_input df col =
     (if re_search_word (py_lower col) user_input then
        map_option (Equals col)
          (find (\<lambda>val. re_search_word val user_input \<and> constraint_met lib df (Equals col val))
             status_values)
      else None)"

text \<open>
  The constraint of the second loop: among the numeric columns in their order, the
  first one that the query names and whose threshold is met by some row.
\<close>

definition asked_threshold :: "string \<Rightarrow> string \<Rightarrow> constraint option" where
  "asked_threshold user_input col =
     (if re_search_word (py_lower col) user_input then
        (if greater_asked user_input then map_option (GreaterThan col) (first_number user_input)
         else if less_asked user_input then map_option (LessThan col) (first_number user_input)
         else None)
      else None)"

definition threshold_constraint :: "pylib \<Rightarrow> string \<Rightarrow> table \<Rightarrow> constraint option" where
  "threshold_constraint lib user_input df =
     find (constraint_met lib df) (List.map_filter (asked_threshold user_input) (numeric_columns df))"

text \<open>The constraints of both loops, in the order of \<open>filters_applied\<close>.\<close>

definition applied_constraints :: "pylib \<Rightarrow> string \<Rightarrow> table \<Rightarrow> constraint list" where
  "applied_constraints lib user_input df =
     List.map_filter (status_constraint lib user_input df) (df_columns df)
       @ (case threshold_constraint lib user_input df of Some c \<Rightarrow> [c] | None \<Rightarrow> [])"

text \<open>The rows of the table at which the mask of every constraint of a list holds.\<close>

definition rows_meeting :: "pylib \<Rightarrow> table \<Rightarrow> constraint list \<Rightarrow> table" where
  "rows_meeting lib df cs =
     select_rows (map (\<lambda>i. list_all (\<lambda>c. constraint_mask lib df c ! i) cs) [0..<df_len df]) df"

text \<open>The state of the loops after the constraints \<open>cs\<close> were applied.\<close>

definition filter_state :: "pylib \<Rightarrow> table \<Rightarrow> constraint list \<Rightarrow> table \<times> string list" where
  "filter_state lib df cs = (rows_meeting lib df cs, map (constraint_label lib) cs)"

section \<open>Example data\<close>

text \<open>A library instance for the examples: floats print with one decimal, a text of
  digits parses as a date, a timestamp's month is its value without the last two digits,
  and long sums are added one value after the other.\<close>

definition example_lib :: pylib where
  "example_lib =
     \<lparr>float_str = fmt_fixed 1, time_str = show_int,
      parse_datetime = (\<lambda>v. case v of
          Str s \<Rightarrow> (if s \<noteq> [] \<and> list_all is_digit s then Some (digits_value s) else None)
        | Time t \<Rightarrow> Some t
        | _ \<Rightarrow> None),
      period_of = (\<lambda>t. t div 100), period_str = show_int,
      long_sum = foldl (\<lambda>a x. f64 (a + x)) 0\<rparr>"

definition example_orders :: table where
  "example_orders =
     \<lparr>index = [0, 1, 2],
      cols = [(''id'', \<lparr>col_dtype = Int64, col_values = [IntV 1, IntV 2, IntV 3]\<rparr>),
              (''amount'', \<lparr>col_dtype = Float64, col_values = [FloatV 10, FloatV 20, Null]\<rparr>)]\<rparr>"

definition example_tickets :: table where
  "example_tickets =
     \<lparr>index = [0, 1],
      cols = [(''status'', \<lparr>col_dtype = Object, col_values = [Str ''open'', Str ''closed'']\<rparr>),
              (''severity'', \<lparr>col_dtype = Object, col_values = [Str ''low'', Str ''high'']\<rparr>)]\<rparr>"

definition example_events :: table where
  "example_events =
     \<lparr>index = [0, 1, 2, 3],
      cols = [(''name'', \<lparr>col_dtype = Object, col_values = [Str ''a'', Str ''a'', Str ''b'', Null]\<rparr>),
              (''created'', \<lparr>col_dtype = Object,
                            col_values = [Str ''20240105'', Str ''hello'', Str ''20231201'',
                                          Str ''20240220'']\<rparr>)]\<rparr>"

text \<open>The table of the statistics example: columns \<open>id\<close> and \<open>amount\<close>, the amounts
  10, 20 and a missing one; and the response expected for the query \<open>average amount\<close>.\<close>

definition amount_column :: column where
  "amount_column = \<lparr>col_dtype = Float64, col_values = [FloatV 10, FloatV 20, Null]\<rparr>"

definition orders_with :: "column \<Rightarrow> table" where
  "orders_with id_column =
     \<lparr>index = [0, 1, 2], cols = [(''id'', id_column), (''amount'', amount_column)]\<rparr>"

definition average_amount_response :: string where
  "average_amount_response =
     emoji_chart_up @ '' **Statistical Analysis:**\<newline>\<newline>''
       @ ''**amount Statistics:**\<newline>''
       @ ''- Count: 2\<newline>''
       @ ''- Mean: 15.00\<newline>''
       @ ''- Median: 15.00\<newline>''
       @ ''- Min: 10.00\<newline>''
       @ ''- Max: 20.00\<newline>''
       @ ''- Std Dev: 7.07\<newline>\<newline>''"



section \<open>Properties\<close>

subsection \<open>Intent classifier\<close>

text \<open>
  C1.  A query that contains one of the count keywords is classified as \<open>count\<close>,
  whatever else it contains.
\<close>

theorem detect_question_type_count_priority:
  assumes "word \<in> set count_words" and "py_in word user_input"
  shows "detect_question_type user_input df columns = ''count''"
proof -
  from assms have "any_word_in count_words user_input"
    unfolding any_word_in_def list_ex_iff by blast
  then show ?thesis
    by (simp add: detect_question_type_def)
qed

theorem detect_question_type_count_priority_witness:
  "''total'' \<in> set count_words \<and> py_in ''total'' ''show average total where severity vs last value''
   \<and> py_in ''average'' ''show average total where severity vs last value''
   \<and> detect_question_type ''show average total where severity vs last value''
         \<lparr>index = [], cols = []\<rparr> [] = ''count''"
  using detect_question_type_count_priority
    [of "''total''" "''show average total where severity vs last value''"
        "\<lparr>index = [], cols = []\<rparr>" "[]"]
  by (simp add: count_words_def)

subsection \<open>Reference extractors\<close>

lemma update_entries:
  "(k, n) \<in> set (AList.update k' v m) \<Longrightarrow> (k, n) = (k', v) \<or> (k, n) \<in> set m"
  by (induction m) (auto split: if_splits)

lemma col_map_fold_keys:
  assumes "\<forall>(k, n) \<in> set m. k = py_strip (py_lower n)"
  shows "\<forall>(k, n) \<in> set (foldl (\<lambda>m col. AList.update (py_strip (py_lower col)) col m) m columns).
           k = py_strip (py_lower n)"
  using assms
proof (induction columns arbitrary: m)
  case Nil
  then show ?case by simp
next
  case (Cons c cs)
  have "\<forall>(k, n) \<in> set (AList.update (py_strip (py_lower c)) c m). k = py_strip (py_lower n)"
    using Cons.prems update_entries by fastforce
  from Cons.IH [OF this] show ?case by simp
qed

lemma col_map_keys:
  "(k, n) \<in> set (col_map columns) \<Longrightarrow> k = py_strip (py_lower n)"
  using col_map_fold_keys [of "[]" columns] unfolding col_map_def by auto

text \<open>A column reaches \<open>mentioned_columns\<close> only when its normalised name occurs in the
  query between word boundaries.\<close>

lemma mentioned_columns_matched:
  assumes "n \<in> set (mentioned_columns user_input columns)"
  shows "re_search_word (py_strip (py_lower n)) user_input"
proof -
  from assms obtain k where "(k, n) \<in> set (col_map columns)" and "re_search_word k user_input"
    unfolding mentioned_columns_def by auto
  then show ?thesis using col_map_keys by blast
qed

lemma status_key: "py_strip (py_lower ''status'') = ''status''"
  by code_simp

lemma statuss_no_word: "\<not> re_search_word ''status'' ''statuss''"
  by code_simp

lemma statuss_substring: "py_in (py_lower ''status'') (py_lower ''statuss'')"
  by code_simp

text \<open>
  C5.  For a table with a column named \<open>status\<close> and the query \<open>statuss\<close>, the strict
  extractor of \<open>analyze_and_answer\<close> does not give \<open>status\<close>, and the permissive extractor
  of the fallback handler does.
\<close>

theorem strict_extractor_whole_word:
  assumes "''status'' \<in> set columns"
  shows "''status'' \<notin> set (mentioned_columns ''statuss'' columns)
         \<and> ''status'' \<in> set (fallback_mentioned_cols ''statuss'' columns)"
proof
  show "''status'' \<notin> set (mentioned_columns ''statuss'' columns)"
    using mentioned_columns_matched [of "''status''" "''statuss''" columns]
      status_key statuss_no_word by auto
  show "''status'' \<in> set (fallback_mentioned_cols ''statuss'' columns)"
    using assms statuss_substring unfolding fallback_mentioned_cols_def by simp
qed

theorem strict_extractor_whole_word_witness:
  "''status'' \<in> set [''id'', ''status'']
   \<and> ''status'' \<notin> set (mentioned_columns ''statuss'' [''id'', ''status''])
   \<and> ''status'' \<in> set (fallback_mentioned_cols ''statuss'' [''id'', ''status''])"
proof -
  have a: "''status'' \<in> set [''id'', ''status'']" by simp
  from strict_extractor_whole_word [OF a] a show ?thesis by simp
qed

subsection \<open>Response generation and the Table Combiner\<close>

text \<open>
  C4.  When neither the primary nor the secondary table is usable (each is absent or
  empty), \<open>generate_response\<close> returns the NoDataAvailable message for every query, and no
  handler runs: the store is as before.
\<close>

theorem generate_response_no_data:
  assumes "\<not> usable h context_df" and "\<not> usable h unmatching_df"
  shows "generate_response lib h user_input context_df role_hint unmatching_df
           = (no_data_message, h)"
proof -
  have "combine_data_sources h context_df unmatching_df = None"
    using assms unfolding combine_data_sources_def usable_def
    by (auto split: option.splits)
  then show ?thesis by (simp add: generate_response_def)
qed

theorem generate_response_no_data_witness:
  "\<not> usable [empty_frame] (Some 0) \<and> \<not> usable [empty_frame] None
   \<and> generate_response example_lib [empty_frame] ''how many rows'' (Some 0) None None
        = (no_data_message, [empty_frame])"
proof -
  have a: "\<not> usable [empty_frame] (Some 0)"
    by (simp add: usable_def df_empty_def empty_frame_def)
  have b: "\<not> usable [empty_frame] None"
    by (simp add: usable_def)
  from generate_response_no_data [OF a b] a b show ?thesis by simp
qed

text \<open>
  C8.  With a non-empty primary table and a secondary table that is absent or empty, the
  Table Combiner gives a combined table equal to the primary table: a fresh copy of it,
  under the single source label.
\<close>

theorem combine_single_source_identity:
  assumes "p < length h" and "\<not> df_empty (h ! p)"
    and "unmatching_df = None \<or> (\<exists>r. unmatching_df = Some r \<and> r < length h \<and> df_empty (h ! r))"
  shows "combine_data_sources h (Some p) unmatching_df
           = Some (h @ [h ! p], length h, [''main database''], track_main (h ! p))
         \<and> (h @ [h ! p]) ! length h = h ! p"
  using assms unfolding combine_data_sources_def alloc_def
  by (auto simp: nth_append)

theorem combine_single_source_identity_witness:
  "(0::nat) < length [example_orders, empty_frame]
   \<and> \<not> df_empty ([example_orders, empty_frame] ! 0)
   \<and> df_empty ([example_orders, empty_frame] ! 1)
   \<and> combine_data_sources [example_orders, empty_frame] (Some 0) (Some 1)
        = Some ([example_orders, empty_frame, example_orders], 2, [''main database''],
                track_main example_orders)"
proof -
  have a: "(0::nat) < length [example_orders, empty_frame]" by simp
  have b: "\<not> df_empty ([example_orders, empty_frame] ! 0)"
    by (simp add: df_empty_def example_orders_def)
  have c: "df_empty ([example_orders, empty_frame] ! 1)"
    by (simp add: df_empty_def empty_frame_def)
  have d: "Some 1 = None \<or> (\<exists>r. Some 1 = Some r \<and> r < length [example_orders, empty_frame]
             \<and> df_empty ([example_orders, empty_frame] ! r))"
    using c by simp
  from combine_single_source_identity [OF a b d] a b c show ?thesis by simp
qed

lemma combine_extends:
  assumes "combine_data_sources h context_df unmatching_df = Some (h', c, srcs, info)"
  shows "take (length h) h' = h \<and> length h \<le> c"
  using assms unfolding combine_data_sources_def alloc_def
  by (auto split: option.splits if_splits list.splits simp: Let_def)

text \<open>
  C10.  \<open>generate_response\<close> works on copies: every table that was in the store before
  the call, the caller's primary and secondary tables among them, is the same after it,
  whatever the query and whichever handler runs.
\<close>

theorem generate_response_keeps_caller_tables:
  "take (length h) (snd (generate_response lib h user_input context_df role_hint unmatching_df)) = h"
proof (cases "combine_data_sources h context_df unmatching_df")
  case None
  then show ?thesis by (simp add: generate_response_def)
next
  case (Some res)
  obtain h' c srcs info where res: "res = (h', c, srcs, info)" by (cases res) auto
  from combine_extends Some res have *: "take (length h) h' = h" "length h \<le> c" by auto
  have "take (length h) (h'[c := x]) = h" for x using * by simp
  then show ?thesis using Some res
    by (simp add: generate_response_def split: prod.splits)
qed

subsection \<open>Statistics\<close>

lemma average_amount_type:
  "detect_question_type ''average amount'' df columns = ''statistics''"
  by code_simp

lemma average_amount_mentioned:
  "mentioned_columns ''average amount'' [''id'', ''amount''] = [''amount'']"
  by code_simp

lemma average_amount_normal: "py_strip (py_lower ''average amount'') = ''average amount''"
  by code_simp

lemma orders_amount: "df_get (orders_with id_column) ''amount'' = amount_column"
  by (simp add: df_get_def orders_with_def)

lemma orders_analyzed: "analyzed_cols (orders_with id_column) [''amount''] = [''amount'']"
  by (simp add: analyzed_cols_def numeric_columns_def orders_with_def amount_column_def
        is_numeric_def Let_def)

lemma amount_section:
  "stats_section lib (orders_with id_column) ''amount'' =
     ''**amount Statistics:**\<newline>- Count: 2\<newline>- Mean: 15.00\<newline>- Median: 15.00\<newline>- Min: 10.00\<newline>- Max: 20.00\<newline>- Std Dev: 7.07\<newline>\<newline>''"
proof -
  have "(let col_data = dropna (col_values amount_column)
      in if length col_data > 0 then
           (let stats = describe lib col_data
            in ''**'' @ ''amount'' @ '' Statistics:**\<newline>''
               @ ''- Count: '' @ show_nat (d_count stats) @ ''\<newline>''
               @ ''- Mean: '' @ fmt_fixed 2 (d_mean stats) @ ''\<newline>''
               @ ''- Median: '' @ fmt_fixed 2 (d_median stats) @ ''\<newline>''
               @ ''- Min: '' @ fmt_fixed 2 (d_min stats) @ ''\<newline>''
               @ ''- Max: '' @ fmt_fixed 2 (d_max stats) @ ''\<newline>''
               @ (case d_std stats of
                    Some v \<Rightarrow> ''- Std Dev: '' @ fmt_fixed 2 v @ ''\<newline>''
                  | None \<Rightarrow> [])
               @ ''\<newline>'')
         else []) = ''**amount Statistics:**\<newline>- Count: 2\<newline>- Mean: 15.00\<newline>- Median: 15.00\<newline>- Min: 10.00\<newline>- Max: 20.00\<newline>- Std Dev: 7.07\<newline>\<newline>''"
    by code_simp
  then show ?thesis unfolding stats_section_def orders_amount .
qed

text \<open>
  C6.  For a table with the columns \<open>id\<close> and \<open>amount\<close>, the amounts being 10, 20 and a
  missing entry, the query \<open>average amount\<close> is classified as statistics, and the response
  reports count 2 and mean 15.00 for \<open>amount\<close>: the missing entry does not take part.
\<close>

theorem average_amount_ignores_null:
  "detect_question_type ''average amount'' (orders_with id_column) [''id'', ''amount''] = ''statistics''
   \<and> fst (generate_response lib [orders_with id_column] ''average amount'' (Some 0) role_hint None)
       = average_amount_response"
proof -
  have ne: "\<not> df_empty (orders_with id_column)"
    by (simp add: df_empty_def orders_with_def)
  have comb: "combine_data_sources [orders_with id_column] (Some 0) None
      = Some ([orders_with id_column, orders_with id_column], 1, [''main database''],
              track_main (orders_with id_column))"
    using ne by (simp add: combine_data_sources_def alloc_def)
  have cols: "df_columns (orders_with id_column) = [''id'', ''amount'']"
    by (simp add: df_columns_def orders_with_def)
  have "fst (analyze_and_answer lib ''average amount'' (orders_with id_column) [''id'', ''amount'']
               role_hint [''main database'']) = average_amount_response"
    by (simp add: analyze_and_answer_def average_amount_type average_amount_mentioned
          handle_comprehensive_statistics_def orders_analyzed amount_section
          average_amount_response_def)
  then show ?thesis
    by (simp add: generate_response_def comb cols average_amount_normal average_amount_type
          case_prod_beta)
qed












lemma round_half_even_mono: "x \<le> y \<Longrightarrow> round_half_even x \<le> round_half_even y"
proof -
  assume xy: "x \<le> y"
  have fl: "\<lfloor>x\<rfloor> \<le> \<lfloor>y\<rfloor>" using xy by (rule floor_mono)
  show ?thesis
  proof (cases "\<lfloor>x\<rfloor> = \<lfloor>y\<rfloor>")
    case True
    then have "x - of_int \<lfloor>x\<rfloor> \<le> y - of_int \<lfloor>y\<rfloor>" using xy by simp
    then show ?thesis using True unfolding round_half_even_def Let_def by auto
  next
    case False
    then have "\<lfloor>x\<rfloor> + 1 \<le> \<lfloor>y\<rfloor>" using fl by simp
    moreover have "round_half_even x \<le> \<lfloor>x\<rfloor> + 1" unfolding round_half_even_def Let_def by auto
    moreover have "\<lfloor>y\<rfloor> \<le> round_half_even y" unfolding round_half_even_def Let_def by auto
    ultimately show ?thesis by linarith
  qed
qed

lemma round_half_even_nonneg: "0 \<le> x \<Longrightarrow> 0 \<le> round_half_even x"
  using round_half_even_mono [of 0 x] by (simp add: round_half_even_def)























subsection \<open>Fixed-point text\<close>

lemma digit_char: "0 \<le> m \<Longrightarrow> m < 10 \<Longrightarrow> of_char (char_of (48 + m :: int)) = 48 + m"
  by (simp add: of_char_of)

lemma digit_char_is_digit: "0 \<le> m \<Longrightarrow> m < 10 \<Longrightarrow> is_digit (char_of (48 + m :: int))"
proof -
  assume a: "0 \<le> m" "m < 10"
  define k where "k = (of_char (char_of (48 + m)) :: nat)"
  have "int k = (of_char (char_of (48 + m)) :: int)" unfolding k_def by (rule of_nat_of_char)
  also have "\<dots> = 48 + m" using a by (rule digit_char)
  finally have "int k = 48 + m" .
  then have "48 \<le> k \<and> k \<le> 57" using a by linarith
  then show ?thesis unfolding is_digit_def Let_def k_def by simp
qed

lemma digits_value_snoc: "digits_value (xs @ [c]) = 10 * digits_value xs + (of_char c - 48)"
  by (simp add: digits_value_def)

lemma show_digits_value: "0 \<le> n \<Longrightarrow> digits_value (show_digits n) = n"
proof (induction n rule: show_digits.induct)
  case (1 n)
  show ?case
  proof (cases "n < 10")
    case True
    then show ?thesis using "1.prems"
      by (subst show_digits.simps) (simp add: digits_value_def digit_char)
  next
    case False
    have m: "0 \<le> n mod 10" "n mod 10 < 10" by simp_all
    have "digits_value (show_digits (n div 10)) = n div 10"
      using "1.IH" False "1.prems" by simp
    then show ?thesis using False m
      by (subst show_digits.simps) (simp add: digits_value_snoc digit_char)
  qed
qed

lemma show_digits_digits: "0 \<le> n \<Longrightarrow> list_all is_digit (show_digits n)"
proof (induction n rule: show_digits.induct)
  case (1 n)
  show ?case
  proof (cases "n < 10")
    case True
    then show ?thesis using "1.prems"
      by (subst show_digits.simps) (simp add: digit_char_is_digit)
  next
    case False
    have m: "0 \<le> n mod 10" "n mod 10 < 10" by simp_all
    have "list_all is_digit (show_digits (n div 10))"
      using "1.IH" False "1.prems" by simp
    then show ?thesis using False m
      by (subst show_digits.simps) (simp add: digit_char_is_digit)
  qed
qed

lemma show_digits_length: "0 \<le> n \<Longrightarrow> n < 10 ^ d \<Longrightarrow> 1 \<le> d \<Longrightarrow> length (show_digits n) \<le> d"
proof (induction n arbitrary: d rule: show_digits.induct)
  case (1 n)
  show ?case
  proof (cases "n < 10")
    case True
    then show ?thesis using "1.prems" by (subst show_digits.simps) simp
  next
    case False
    then obtain e where d: "d = Suc e" using "1.prems" by (cases d) auto
    have "1 \<le> e" using False "1.prems" d by (cases e) auto
    moreover have "n div 10 < 10 ^ e" using "1.prems" d by (simp add: div_less_iff_less_mult)
    ultimately have "length (show_digits (n div 10)) \<le> e"
      using "1.IH" [of e] False "1.prems" by simp
    then show ?thesis using False d
      by (subst show_digits.simps) simp
  qed
qed

lemma dot_no_digit: "\<not> is_digit CHR ''.''" and minus_no_digit: "\<not> is_digit CHR ''-''"
  by (simp_all add: is_digit_def)

lemma show_digits_nonempty: "show_digits n \<noteq> []"
  by (subst show_digits.simps) simp

lemma digits_value_zeros: "digits_value (replicate k CHR ''0'' @ s) = digits_value s"
proof -
  have "foldl (\<lambda>a c. 10 * a + (of_char c - 48)) (0::int) (replicate k CHR ''0'') = 0"
    by (induction k) simp_all
  then show ?thesis by (simp add: digits_value_def)
qed

lemma take_digits:
  assumes "list_all is_digit ip"
  shows "takeWhile (\<lambda>c. c \<noteq> CHR ''.'') (ip @ CHR ''.'' # fp) = ip"
    and "dropWhile (\<lambda>c. c \<noteq> CHR ''.'') (ip @ CHR ''.'' # fp) = CHR ''.'' # fp"
proof -
  have "\<forall>c\<in>set ip. c \<noteq> CHR ''.''" using assms dot_no_digit by (auto simp: list_all_iff)
  then show "takeWhile (\<lambda>c. c \<noteq> CHR ''.'') (ip @ CHR ''.'' # fp) = ip"
    and "dropWhile (\<lambda>c. c \<noteq> CHR ''.'') (ip @ CHR ''.'' # fp) = CHR ''.'' # fp"
    by (simp_all add: takeWhile_append2 dropWhile_append2)
qed

lemma fmt_digits_value:
  assumes "0 \<le> n" and "1 \<le> d"
  shows "of_int (digits_value (takeWhile (\<lambda>c. c \<noteq> CHR ''.'') (fmt_digits d n)))
           + of_int (digits_value (drop 1 (dropWhile (\<lambda>c. c \<noteq> CHR ''.'') (fmt_digits d n))))
               / 10 ^ length (drop 1 (dropWhile (\<lambda>c. c \<noteq> CHR ''.'') (fmt_digits d n)))
         = (of_int n :: rat) / 10 ^ d"
proof -
  let ?ip = "show_digits (n div 10 ^ d)"
  let ?fs = "show_digits (n mod 10 ^ d)"
  let ?fp = "pad_zeros d ?fs"
  have q: "0 \<le> n div 10 ^ d" using assms(1) by (simp add: pos_imp_zdiv_nonneg_iff)
  have r: "0 \<le> n mod 10 ^ d" "n mod 10 ^ d < 10 ^ d" by simp_all
  have f: "fmt_digits d n = ?ip @ CHR ''.'' # ?fp" by (simp add: fmt_digits_def)
  have ipd: "list_all is_digit ?ip" using q by (rule show_digits_digits)
  have len: "length ?fs \<le> d" using r assms(2) by (rule show_digits_length)
  then have lfp: "length ?fp = d" by (simp add: pad_zeros_def)
  have vfp: "digits_value ?fp = n mod 10 ^ d"
    using r(1) by (simp add: pad_zeros_def digits_value_zeros show_digits_value)
  have vip: "digits_value ?ip = n div 10 ^ d" using q by (rule show_digits_value)
  have "(of_int (n div 10 ^ d) :: rat) + of_int (n mod 10 ^ d) / 10 ^ d = of_int n / 10 ^ d"
  proof -
    have "(of_int n :: rat) = of_int (10 ^ d * (n div 10 ^ d) + n mod 10 ^ d)" by simp
    also have "\<dots> = 10 ^ d * of_int (n div 10 ^ d) + of_int (n mod 10 ^ d)"
      by (simp only: of_int_add of_int_mult of_int_power of_int_numeral)
    finally show ?thesis by (simp add: field_simps)
  qed
  then show ?thesis unfolding f take_digits [OF ipd] by (simp add: lfp vfp vip)
qed

text \<open>The text printed for a number reads back as the number's shown value.\<close>

lemma read_fixed_fmt_fixed:
  assumes "1 \<le> d"
  shows "read_fixed (fmt_fixed d x) = shown_value d x"
proof -
  let ?n = "round_half_even (\<bar>x\<bar> * 10 ^ d)"
  have n: "0 \<le> ?n" by (rule round_half_even_nonneg) simp
  have q: "0 \<le> ?n div 10 ^ d" using n by (simp add: pos_imp_zdiv_nonneg_iff)
  have "is_digit (hd (show_digits (?n div 10 ^ d)))"
    using show_digits_digits [OF q] show_digits_nonempty [of "?n div 10 ^ d"]
    by (cases "show_digits (?n div 10 ^ d)") auto
  then have h: "hd (fmt_digits d ?n) \<noteq> CHR ''-''"
    using minus_no_digit show_digits_nonempty [of "?n div 10 ^ d"]
    by (auto simp: fmt_digits_def)
  have ne: "fmt_digits d ?n \<noteq> []" by (simp add: fmt_digits_def)
  show ?thesis
  proof (cases "x < 0")
    case True
    then have "fmt_fixed d x = CHR ''-'' # fmt_digits d ?n" by (simp add: fmt_fixed_def)
    then show ?thesis using True fmt_digits_value [OF n assms]
      by (simp add: read_fixed_def shown_value_def Let_def)
  next
    case False
    then have "fmt_fixed d x = fmt_digits d ?n" by (simp add: fmt_fixed_def)
    then show ?thesis using False h ne fmt_digits_value [OF n assms]
      by (simp add: read_fixed_def shown_value_def Let_def)
  qed
qed

subsection \<open>Percentages of the value-count breakdowns\<close>

lemma sum_list_insort_key:
  "sum_list (map h (insort_key f x xs)) = h x + sum_list (map (h::'a \<Rightarrow> rat) xs)"
  by (induction xs) auto

lemma sum_list_sort_key:
  "sum_list (map h (sort_key f xs)) = sum_list (map (h::'a \<Rightarrow> rat) xs)"
  by (induction xs) (auto simp: sum_list_insort_key)

lemma unique_distinct: "distinct (unique xs)" and unique_set: "set (unique xs) = set xs"
  unfolding unique_def by auto

lemma count_list_sum_unique: "sum_list (map (count_list xs) (unique xs)) = length xs"
proof -
  have "sum_list (map (count_list xs) (unique xs)) = sum (count_list xs) (set (unique xs))"
    using unique_distinct by (rule sum_list_distinct_conv_sum_set)
  also have "\<dots> = length xs"
    unfolding unique_set by (rule sum_count_set) auto
  finally show ?thesis .
qed

lemma pct_sum: "sum_list (map (\<lambda>n. pct n t) ns) = pct (sum_list ns) t"
  by (induction ns) (auto simp: pct_def algebra_simps add_divide_distrib)

lemma breakdown_exact_sum:
  "sum_list (map (snd \<circ> snd) (breakdown df col))
     = pct (length (dropna (col_values (df_get df col)))) (df_len df)"
proof -
  let ?xs = "dropna (col_values (df_get df col))"
  have "sum_list (map (snd \<circ> snd) (breakdown df col))
      = sum_list (map (\<lambda>x. pct (snd x) (df_len df)) (value_counts ?xs))"
    unfolding breakdown_def by (simp add: comp_def case_prod_beta)
  also have "\<dots> = sum_list (map (\<lambda>x. pct (snd x) (df_len df)) (map (\<lambda>v. (v, count_list ?xs v)) (unique ?xs)))"
    unfolding value_counts_def by (rule sum_list_sort_key)
  also have "\<dots> = sum_list (map (\<lambda>n. pct n (df_len df)) (map (count_list ?xs) (unique ?xs)))"
    by (simp add: comp_def)
  also have "\<dots> = pct (sum_list (map (count_list ?xs) (unique ?xs))) (df_len df)"
    by (rule pct_sum)
  finally show ?thesis by (simp add: count_list_sum_unique)
qed

lemma round_half_even_error: "\<bar>of_int (round_half_even y) - y\<bar> \<le> 1 / 2"
proof -
  define f where "f = \<lfloor>y\<rfloor>"
  define d where "d = y - of_int f"
  have d: "0 \<le> d" "d < 1" unfolding d_def f_def by linarith+
  have y: "y = of_int f + d" unfolding d_def by simp
  have r: "round_half_even y = (if d < 1 / 2 then f else if 1 / 2 < d then f + 1
             else if even f then f else f + 1)"
    unfolding round_half_even_def Let_def f_def d_def by simp
  show ?thesis
  proof (cases "d < 1 / 2")
    case True
    then show ?thesis using d r y by simp
  next
    case False
    show ?thesis
    proof (cases "1 / 2 < d")
      case True
      then have "round_half_even y = f + 1" using r False by simp
      then show ?thesis using d y True by simp
    next
      case F2: False
      then have "d = 1 / 2" using False by simp
      then show ?thesis using r y by (auto simp: abs_if)
    qed
  qed
qed

lemma shown_value_error:
  assumes "0 \<le> x"
  shows "\<bar>shown_value 1 x - x\<bar> \<le> 1 / 20"
proof -
  define r where "r = (of_int (round_half_even (x * 10)) :: rat)"
  have "\<bar>r - x * 10\<bar> \<le> 1 / 2" unfolding r_def by (rule round_half_even_error)
  then have e: "\<bar>r / 10 - x\<bar> \<le> 1 / 20" by (simp add: abs_le_iff field_simps)
  have sv: "shown_value 1 x = r / 10" using assms unfolding shown_value_def r_def by simp
  show ?thesis unfolding sv by (rule e)
qed

lemma pct_nonneg: "0 \<le> pct n t"
  unfolding pct_def by simp

lemma sum_error_bound:
  assumes "\<forall>p\<in>set ps. \<bar>f p - p\<bar> \<le> (e::rat)"
  shows "\<bar>sum_list (map f ps) - sum_list ps\<bar> \<le> of_nat (length ps) * e"
  using assms
proof (induction ps)
  case Nil
  then show ?case by simp
next
  case (Cons p ps)
  have a: "\<bar>f p - p\<bar> \<le> e" using Cons.prems by simp
  have b: "\<bar>sum_list (map f ps) - sum_list ps\<bar> \<le> of_nat (length ps) * e"
    using Cons by simp
  have "\<bar>sum_list (map f (p # ps)) - sum_list (p # ps)\<bar>
      \<le> \<bar>f p - p\<bar> + \<bar>sum_list (map f ps) - sum_list ps\<bar>"
    by simp
  also have "\<dots> \<le> e + of_nat (length ps) * e" using a b by linarith
  finally show ?case by (simp add: algebra_simps)
qed

lemma breakdown_pcts_nonneg: "\<forall>p\<in>set (map (snd \<circ> snd) (breakdown df col)). 0 \<le> p"
  unfolding breakdown_def by (auto simp: pct_nonneg)

lemma breakdown_shown_sum:
  "\<bar>sum_list (map (shown_value 1 \<circ> snd \<circ> snd) (breakdown df col))
     - pct (length (dropna (col_values (df_get df col)))) (df_len df)\<bar>
     \<le> of_nat (length (breakdown df col)) / 20"
proof -
  let ?ps = "map (snd \<circ> snd) (breakdown df col)"
  have e: "\<forall>p\<in>set ?ps. \<bar>shown_value 1 p - p\<bar> \<le> 1 / 20"
    using breakdown_pcts_nonneg shown_value_error by blast
  have m: "map (shown_value 1 \<circ> snd \<circ> snd) (breakdown df col) = map (shown_value 1) ?ps"
    by (simp only: map_map comp_assoc)
  from sum_error_bound [OF e] have "\<bar>sum_list (map (shown_value 1) ?ps) - sum_list ?ps\<bar>
      \<le> of_nat (length (breakdown df col)) / 20" by simp
  then show ?thesis unfolding m breakdown_exact_sum .
qed

lemma no_null_full:
  assumes "wf_table df" and "col_in_df col df" and "Null \<notin> set (col_values (df_get df col))"
    and "0 < df_len df"
  shows "pct (length (dropna (col_values (df_get df col)))) (df_len df) = 100"
proof -
  from assms(2) obtain c where c: "(col, c) \<in> set (cols df)"
    unfolding col_in_df_def df_columns_def by auto
  have g: "df_get df col = c" using assms(1) c unfolding wf_table_def df_get_def by simp
  have "wf_column (length (index df)) c" using assms(1) c unfolding wf_table_def list_all_iff by auto
  then have len: "length (col_values c) = df_len df" unfolding wf_column_def df_len_def by simp
  have "dropna (col_values c) = col_values c"
    using assms(3) g unfolding dropna_def notna_def by (auto simp: filter_id_conv)
  then show ?thesis using len g assms(4) unfolding pct_def by simp
qed

text \<open>
  C3 as stated fails: the percentages are taken of all rows of the table, and the
  breakdown lists the values that are not missing.  For the table \<open>example_events\<close>, whose
  column \<open>name\<close> holds \<open>a\<close> twice, \<open>b\<close> once and a missing entry, Count and Comparison
  print 50.0% and 25.0%.
\<close>

theorem percentages_sum_counterexample:
  "fst (generate_response example_lib [example_events] ''count name'' (Some 0) None None)
     = emoji_bar_chart @ '' **Count by name:**\<newline>\<newline>''
         @ ''- **a:** 2 (50.0%)\<newline>- **b:** 1 (25.0%)\<newline>\<newline>''
   \<and> fst (generate_response example_lib [example_events] ''compare name'' (Some 0) None None)
     = emoji_bar_chart @ '' **Comparison Analysis:**\<newline>\<newline>**name Comparison:**\<newline>''
         @ ''- **a:** 2 (50.0%)\<newline>- **b:** 1 (25.0%)\<newline>\<newline>''
   \<and> shown_percentages example_events ''name'' = [50, 25]
   \<and> \<not> \<bar>sum_list (shown_percentages example_events ''name'') - 100\<bar>
         \<le> of_nat (length (shown_percentages example_events ''name'')) / 20"
  by code_simp

text \<open>
  C3, amended.  The percentages printed for the full breakdown of a column of the table
  sum, within 0.05 per printed value, to 100 times the share of the table's rows in which
  the column is not missing; for a column without missing entries they sum to 100 within
  that tolerance.
\<close>

theorem breakdown_percentages_sum:
  assumes "wf_table df" and "col_in_df col df"
  shows "\<bar>sum_list (shown_percentages df col)
            - of_nat (length (dropna (col_values (df_get df col)))) / of_nat (df_len df) * 100\<bar>
           \<le> of_nat (length (shown_percentages df col)) / 20
         \<and> (Null \<notin> set (col_values (df_get df col)) \<and> 0 < df_len df
              \<longrightarrow> \<bar>sum_list (shown_percentages df col) - 100\<bar>
                    \<le> of_nat (length (shown_percentages df col)) / 20)"
proof (intro conjI impI)
  show g: "\<bar>sum_list (shown_percentages df col)
      - of_nat (length (dropna (col_values (df_get df col)))) / of_nat (df_len df) * 100\<bar>
     \<le> of_nat (length (shown_percentages df col)) / 20"
    using breakdown_shown_sum [of df col] unfolding shown_percentages_def pct_def by simp
  show "\<bar>sum_list (shown_percentages df col) - 100\<bar>
          \<le> of_nat (length (shown_percentages df col)) / 20"
    if "Null \<notin> set (col_values (df_get df col)) \<and> 0 < df_len df"
    using g no_null_full [OF assms] that unfolding pct_def by simp
qed

theorem breakdown_percentages_sum_witness:
  "wf_table example_tickets \<and> col_in_df ''status'' example_tickets
   \<and> Null \<notin> set (col_values (df_get example_tickets ''status'')) \<and> 0 < df_len example_tickets
   \<and> \<bar>sum_list (shown_percentages example_tickets ''status'') - 100\<bar>
        \<le> of_nat (length (shown_percentages example_tickets ''status'')) / 20"
proof -
  have a: "wf_table example_tickets" by code_simp
  have b: "col_in_df ''status'' example_tickets" by code_simp
  have c: "Null \<notin> set (col_values (df_get example_tickets ''status'')) \<and> 0 < df_len example_tickets"
    by code_simp
  from breakdown_percentages_sum [OF a b] a b c show ?thesis by blast
qed

subsection \<open>Filter\<close>

lemma column_length:
  assumes "wf_table df" and "col_in_df col df"
  shows "length (col_values (df_get df col)) = length (index df)"
proof -
  from assms(2) obtain c where c: "(col, c) \<in> set (cols df)"
    unfolding col_in_df_def df_columns_def by auto
  have g: "df_get df col = c" using assms(1) c unfolding wf_table_def df_get_def by simp
  have "wf_column (length (index df)) c" using assms(1) c unfolding wf_table_def list_all_iff by auto
  then show ?thesis using g unfolding wf_column_def by simp
qed

lemma numeric_columns_in_df: "\<forall>c\<in>set (numeric_columns df). col_in_df c df"
  unfolding numeric_columns_def col_in_df_def df_columns_def by auto

lemma select_all: "length keep = length xs \<Longrightarrow> \<forall>k\<in>set keep. k \<Longrightarrow> select keep xs = xs"
proof (induction keep xs rule: list_induct2)
  case Nil
  then show ?case by (simp add: select_def)
next
  case (Cons k ks x xs)
  then show ?case by (auto simp: select_def)
qed

lemma select_select:
  assumes "length K = length ls" and "length xs = length ls"
  shows "select (map P (select K ls)) (select K xs) = select (map (\<lambda>(k, l). k \<and> P l) (zip K ls)) xs"
  using assms(1) assms(2) [symmetric]
proof (induction K ls xs rule: list_induct3)
  case Nil
  then show ?case by (simp add: select_def)
next
  case (Cons k ks l ls x xs)
  then show ?case by (cases k) (simp_all add: select_def)
qed

lemma keep_step:
  assumes "distinct ls" and "length marks = length ls" and "M c' = marks"
  shows "map (\<lambda>(k, l). k \<and> map_of (zip ls marks) l = Some True)
           (zip (map (\<lambda>i. list_all (\<lambda>c. M c ! i) cs) [0..<length ls]) ls)
       = map (\<lambda>i. list_all (\<lambda>c. M c ! i) (cs @ [c'])) [0..<length ls]"
proof (rule nth_equalityI)
  show "length (map (\<lambda>(k, l). k \<and> map_of (zip ls marks) l = Some True)
           (zip (map (\<lambda>i. list_all (\<lambda>c. M c ! i) cs) [0..<length ls]) ls))
       = length (map (\<lambda>i. list_all (\<lambda>c. M c ! i) (cs @ [c'])) [0..<length ls])" by simp
next
  fix i
  assume "i < length (map (\<lambda>(k, l). k \<and> map_of (zip ls marks) l = Some True)
           (zip (map (\<lambda>i. list_all (\<lambda>c. M c ! i) cs) [0..<length ls]) ls))"
  then have i: "i < length ls" by simp
  have "map_of (zip ls marks) (ls ! i) = Some (marks ! i)"
    using assms i by (simp add: map_of_zip_nth)
  then show "map (\<lambda>(k, l). k \<and> map_of (zip ls marks) l = Some True)
           (zip (map (\<lambda>i. list_all (\<lambda>c. M c ! i) cs) [0..<length ls]) ls) ! i
       = map (\<lambda>i. list_all (\<lambda>c. M c ! i) (cs @ [c'])) [0..<length ls] ! i"
    using i assms(3) by simp
qed

lemma rows_meeting_nil:
  assumes "wf_table df"
  shows "rows_meeting lib df [] = df"
proof -
  let ?keep = "map (\<lambda>i. True) [0..<length (index df)]"
  have i: "select ?keep (index df) = index df" by (rule select_all) simp_all
  have "(case nc of (n, c) \<Rightarrow> (n, c\<lparr>col_values := select ?keep (col_values c)\<rparr>)) = nc"
    if "nc \<in> set (cols df)" for nc
  proof -
    obtain n c where nc: "nc = (n, c)" by (cases nc)
    have "wf_column (length (index df)) c" using assms that nc
      unfolding wf_table_def list_all_iff by auto
    then have "length ?keep = length (col_values c)" unfolding wf_column_def by simp
    then have "select ?keep (col_values c) = col_values c" by (rule select_all) simp
    then show ?thesis using nc by simp
  qed
  then have "map (\<lambda>(n, c). (n, c\<lparr>col_values := select ?keep (col_values c)\<rparr>)) (cols df) = cols df"
    by (simp add: map_idI)
  then show ?thesis unfolding rows_meeting_def select_rows_def df_len_def using i by simp
qed

lemma rows_meeting_snoc:
  assumes "wf_table df" and "length (constraint_mask lib df c) = length (index df)"
  shows "bool_index (rows_meeting lib df cs) (index df) (constraint_mask lib df c)
       = rows_meeting lib df (cs @ [c])"
proof -
  let ?n = "length (index df)"
  let ?K = "map (\<lambda>i. list_all (\<lambda>c. constraint_mask lib df c ! i) cs) [0..<?n]"
  let ?K' = "map (\<lambda>i. list_all (\<lambda>c. constraint_mask lib df c ! i) (cs @ [c])) [0..<?n]"
  let ?P = "\<lambda>l. map_of (zip (index df) (constraint_mask lib df c)) l = Some True"
  have d: "distinct (index df)" using assms(1) unfolding wf_table_def by simp
  have k: "map (\<lambda>(k, l). k \<and> ?P l) (zip ?K (index df)) = ?K'"
    by (rule keep_step [OF d assms(2)]) simp
  have sel: "select (map ?P (select ?K (index df))) (select ?K xs) = select ?K' xs"
    if "length xs = ?n" for xs :: "'a list"
    using select_select [of ?K "index df" xs ?P] that k by simp
  have idx: "select (map ?P (select ?K (index df))) (select ?K (index df)) = select ?K' (index df)"
    by (rule sel) simp
  have "(case (case nc of (n, c) \<Rightarrow> (n, c\<lparr>col_values := select ?K (col_values c)\<rparr>)) of
           (n, c) \<Rightarrow> (n, c\<lparr>col_values := select (map ?P (select ?K (index df))) (col_values c)\<rparr>))
      = (case nc of (n, c) \<Rightarrow> (n, c\<lparr>col_values := select ?K' (col_values c)\<rparr>))"
    if "nc \<in> set (cols df)" for nc
  proof -
    obtain n c where nc: "nc = (n, c)" by (cases nc)
    have "wf_column ?n c" using assms(1) that nc unfolding wf_table_def list_all_iff by auto
    then have "length (col_values c) = ?n" unfolding wf_column_def by simp
    from sel [OF this] show ?thesis using nc by simp
  qed
  then have cs: "map (\<lambda>(n, c). (n, c\<lparr>col_values := select (map ?P (select ?K (index df))) (col_values c)\<rparr>))
                  (map (\<lambda>(n, c). (n, c\<lparr>col_values := select ?K (col_values c)\<rparr>)) (cols df))
      = map (\<lambda>(n, c). (n, c\<lparr>col_values := select ?K' (col_values c)\<rparr>)) (cols df)"
    by (simp add: comp_def cong: map_cong)
  show ?thesis
    unfolding bool_index_def rows_meeting_def select_rows_def df_len_def
    using idx cs by simp
qed

lemma constraint_mask_length:
  assumes "wf_table df" and "constraint_asked user_input df c"
  shows "length (constraint_mask lib df c) = length (index df)"
proof (cases c)
  case (Equals col val)
  then show ?thesis using assms column_length [of df col] by (simp add: col_in_df_def)
next
  case (GreaterThan col th)
  then show ?thesis using assms column_length [of df col] numeric_columns_in_df [of df]
    by (simp add: above_mask_def)
next
  case (LessThan col th)
  then show ?thesis using assms column_length [of df col] numeric_columns_in_df [of df]
    by (simp add: below_mask_def)
qed

lemma status_constraint_step:
  assumes "col \<in> set (df_columns df)"
  shows "status_filter_step lib user_input df st col
       = (case status_constraint lib user_input df col of
            None \<Rightarrow> st
          | Some c \<Rightarrow> (bool_index (fst st) (index df) (constraint_mask lib df c),
                       snd st @ [constraint_label lib c]))"
proof -
  have "(\<lambda>val. re_search_word val user_input \<and> col_in_df col df
               \<and> list_ex notna (col_values (df_get df col))
               \<and> list_ex (value_matches lib val) (col_values (df_get df col)))
      = (\<lambda>val. re_search_word val user_input \<and> constraint_met lib df (Equals col val))"
    using assms
    by (auto simp: fun_eq_iff col_in_df_def constraint_met_def list_ex_iff value_matches_def)
  then show ?thesis
    unfolding status_filter_step_def status_constraint_def
    by (cases st) (simp split: option.splits)
qed

lemma status_constraint_asked:
  assumes "col \<in> set (df_columns df)" and "status_constraint lib user_input df col = Some c"
  shows "constraint_asked user_input df c \<and> constraint_met lib df c"
proof -
  from assms(2) obtain val where v: "c = Equals col val" "re_search_word (py_lower col) user_input"
    "find (\<lambda>val. re_search_word val user_input \<and> constraint_met lib df (Equals col val))
       status_values = Some val"
    unfolding status_constraint_def by (auto split: if_splits)
  from v(3) have "val \<in> set status_values" "re_search_word val user_input"
    "constraint_met lib df (Equals col val)"
    by (auto simp: find_Some_iff)
  then show ?thesis using v(1,2) assms(1) by simp
qed

lemma status_fold_state:
  assumes "wf_table df" and "set columns \<subseteq> set (df_columns df)"
  shows "foldl (status_filter_step lib user_input df) (filter_state lib df cs) columns
       = filter_state lib df (cs @ List.map_filter (status_constraint lib user_input df) columns)"
  using assms(2)
proof (induction columns arbitrary: cs)
  case Nil
  then show ?case by (simp add: List.map_filter_simps)
next
  case (Cons col rest)
  have col: "col \<in> set (df_columns df)" and rest: "set rest \<subseteq> set (df_columns df)"
    using Cons.prems by auto
  show ?case
  proof (cases "status_constraint lib user_input df col")
    case None
    then show ?thesis using Cons.IH [OF rest, of cs]
      by (simp add: status_constraint_step [OF col] List.map_filter_simps)
  next
    case (Some c)
    from status_constraint_asked [OF col Some] have "constraint_asked user_input df c" by simp
    from constraint_mask_length [OF assms(1) this]
    have len: "length (constraint_mask lib df c) = length (index df)" .
    have "status_filter_step lib user_input df (filter_state lib df cs) col
        = filter_state lib df (cs @ [c])"
      using Some rows_meeting_snoc [OF assms(1) len, of cs]
      by (simp add: status_constraint_step [OF col] filter_state_def)
    then show ?thesis using Cons.IH [OF rest, of "cs @ [c]"] Some
      by (simp add: List.map_filter_simps)
  qed
qed

lemma asked_threshold_asked:
  assumes "col \<in> set (numeric_columns df)" and "asked_threshold user_input col = Some c"
  shows "constraint_asked user_input df c"
  using assms unfolding asked_threshold_def by (auto split: if_splits)

lemma numeric_loop_find:
  "numeric_filter_loop lib user_input df st names
     = (case find (constraint_met lib df) (List.map_filter (asked_threshold user_input) names) of
          None \<Rightarrow> st
        | Some c \<Rightarrow> (bool_index (fst st) (index df) (constraint_mask lib df c),
                     snd st @ [constraint_label lib c]))"
proof (induction names)
  case Nil
  then show ?case by (simp add: List.map_filter_simps)
next
  case (Cons col rest)
  then show ?case
    by (auto simp: List.map_filter_simps asked_threshold_def constraint_met_def
             split: option.splits)
qed

lemma threshold_constraint_asked:
  assumes "threshold_constraint lib user_input df = Some c"
  shows "constraint_asked user_input df c \<and> constraint_met lib df c"
proof -
  from assms have m: "constraint_met lib df c"
    and "c \<in> set (List.map_filter (asked_threshold user_input) (numeric_columns df))"
    unfolding threshold_constraint_def by (auto simp: find_Some_iff)
  then obtain col where "col \<in> set (numeric_columns df)" "asked_threshold user_input col = Some c"
    by (auto simp: List.map_filter_def)
  from asked_threshold_asked [OF this] m show ?thesis by simp
qed

lemma apply_filters_state:
  assumes "wf_table df"
  shows "apply_filters lib user_input df (df_columns df)
       = filter_state lib df (applied_constraints lib user_input df)"
proof -
  let ?cs = "List.map_filter (status_constraint lib user_input df) (df_columns df)"
  have s: "foldl (status_filter_step lib user_input df) (df, []) (df_columns df)
      = filter_state lib df ?cs"
    using status_fold_state [OF assms, of "df_columns df" lib user_input "[]"]
    by (simp add: filter_state_def rows_meeting_nil [OF assms])
  show ?thesis
  proof (cases "threshold_constraint lib user_input df")
    case None
    then show ?thesis
      unfolding apply_filters_def s numeric_loop_find applied_constraints_def
      by (simp add: threshold_constraint_def)
  next
    case (Some c)
    from threshold_constraint_asked [OF Some] have "constraint_asked user_input df c" by simp
    from constraint_mask_length [OF assms this]
    have len: "length (constraint_mask lib df c) = length (index df)" .
    show ?thesis
      unfolding apply_filters_def s numeric_loop_find applied_constraints_def
      using Some rows_meeting_snoc [OF assms len, of ?cs]
      by (simp add: threshold_constraint_def filter_state_def)
  qed
qed

lemma applied_constraints_asked:
  assumes "c \<in> set (applied_constraints lib user_input df)"
  shows "constraint_asked user_input df c \<and> constraint_met lib df c"
proof -
  from assms consider
    col where "col \<in> set (df_columns df)" "status_constraint lib user_input df col = Some c"
    | "threshold_constraint lib user_input df = Some c"
    unfolding applied_constraints_def
    by (auto simp: List.map_filter_def split: option.splits)
  then show ?thesis
  proof cases
    case 1
    then show ?thesis by (rule status_constraint_asked)
  next
    case 2
    then show ?thesis by (rule threshold_constraint_asked)
  qed
qed


lemma select_nonempty:
  assumes "length keep = length xs" and "i < length xs" and "keep ! i"
  shows "select keep xs \<noteq> []"
proof -
  have "(keep ! i, xs ! i) \<in> set (zip keep xs)"
    using assms by (metis in_set_zip fst_conv snd_conv)
  then have "(keep ! i, xs ! i) \<in> set (filter fst (zip keep xs))" using assms(3) by simp
  then have "filter fst (zip keep xs) \<noteq> []" by (metis empty_iff list.set(1))
  then show ?thesis unfolding select_def by simp
qed

lemma rows_meeting_single:
  assumes "length (constraint_mask lib df c) = length (index df)" and "constraint_met lib df c"
  shows "1 \<le> df_len (rows_meeting lib df [c])"
proof -
  let ?keep = "map (\<lambda>i. list_all (\<lambda>c. constraint_mask lib df c ! i) [c]) [0..<df_len df]"
  from assms(2) obtain i where i: "i < length (constraint_mask lib df c)" "constraint_mask lib df c ! i"
    unfolding constraint_met_def list_ex_iff by (auto simp: in_set_conv_nth)
  have "?keep ! i" using i assms(1) by (simp add: df_len_def)
  then have "select ?keep (index df) \<noteq> []"
    using select_nonempty [of ?keep "index df" i] i assms(1) by (simp add: df_len_def)
  then show ?thesis
    unfolding rows_meeting_def select_rows_def df_len_def
    by (cases "select (map (\<lambda>i. list_all (\<lambda>c. constraint_mask lib df c ! i) [c]) [0..<length (index df)]) (index df)") auto
qed

text \<open>
  C9 as stated fails: each filter is tested against the whole table and then applied
  to the rows left by the filters before it, so two applied filters can leave no row.
  In \<open>example_tickets\<close> one row is open and the other of high severity.
\<close>

theorem filter_zero_records_counterexample:
  "generate_response example_lib [example_tickets] ''Which status open severity high''
       (Some 0) None None
     = (emoji_magnifier @ '' **Filtered Results (0 records):**\<newline>\<newline>''
          @ ''Filters applied: status = open, severity = high\<newline>\<newline>'',
        [example_tickets, example_tickets])
   \<and> snd (apply_filters example_lib ''which status open severity high'' example_tickets
            (df_columns example_tickets)) = [''status = open'', ''severity = high'']
   \<and> df_len (fst (apply_filters example_lib ''which status open severity high'' example_tickets
            (df_columns example_tickets))) = 0"
  by code_simp

text \<open>
  C9, amended.  The filters the handler lists are the labels of the constraints of
  \<open>applied_constraints\<close>, in their order, and the frame its count and records are taken
  from consists of the rows of the table that meet every one of them: the handler starts
  from the whole table, and each filter is applied, by boolean indexing with its mask, to
  the rows left by the filters before it.  Every such constraint is asked for
  by the query and met by at least one row of the table, so a constraint that no row
  meets is dropped.  When exactly one filter is applied, the filtered frame has at least
  one row.  When a filter is applied, the response starts with the number of rows of that
  frame and the list of the labels; when none is applied, the handler's answer is that of
  the Search handler.
\<close>

theorem filter_applied_constraints:
  assumes "wf_table df"
  shows "snd (apply_filters lib user_input df (df_columns df))
           = map (constraint_label lib) (applied_constraints lib user_input df)
       \<and> fst (apply_filters lib user_input df (df_columns df))
           = rows_meeting lib df (applied_constraints lib user_input df)
       \<and> rows_meeting lib df [] = df
       \<and> (\<forall>k<length (applied_constraints lib user_input df).
             rows_meeting lib df (take (Suc k) (applied_constraints lib user_input df))
               = bool_index (rows_meeting lib df (take k (applied_constraints lib user_input df)))
                   (index df)
                   (constraint_mask lib df (applied_constraints lib user_input df ! k)))
       \<and> (\<forall>c\<in>set (applied_constraints lib user_input df).
             constraint_asked user_input df c \<and> constraint_met lib df c)
       \<and> (length (snd (apply_filters lib user_input df (df_columns df))) = 1
            \<longrightarrow> 1 \<le> df_len (fst (apply_filters lib user_input df (df_columns df))))
       \<and> (snd (apply_filters lib user_input df (df_columns df)) \<noteq> []
            \<longrightarrow> prefix (emoji_magnifier @ '' **Filtered Results (''
                          @ show_nat (df_len (rows_meeting lib df (applied_constraints lib user_input df)))
                          @ '' records):**\<newline>\<newline>''
                          @ ''Filters applied: ''
                          @ py_join '', '' (map (constraint_label lib) (applied_constraints lib user_input df))
                          @ ''\<newline>\<newline>'')
                  (fst (handle_comprehensive_filter lib user_input df (df_columns df)
                          mentioned_cols role_hint)))
       \<and> (snd (apply_filters lib user_input df (df_columns df)) = []
            \<longrightarrow> handle_comprehensive_filter lib user_input df (df_columns df) mentioned_cols role_hint
                  = handle_comprehensive_search lib user_input df (df_columns df) mentioned_cols role_hint)"
proof -
  let ?cs = "applied_constraints lib user_input df"
  have st: "apply_filters lib user_input df (df_columns df) = filter_state lib df ?cs"
    by (rule apply_filters_state [OF assms])
  have asked: "\<forall>c\<in>set ?cs. constraint_asked user_input df c \<and> constraint_met lib df c"
    using applied_constraints_asked by blast
  have one: "1 \<le> df_len (rows_meeting lib df ?cs)" if "length ?cs = 1"
  proof -
    from that obtain c where c: "?cs = [c]" by (cases ?cs) auto
    then have "constraint_asked user_input df c" "constraint_met lib df c" using asked by auto
    from rows_meeting_single [OF constraint_mask_length [OF assms this(1)] this(2)]
    show ?thesis using c by simp
  qed
  have shown: "prefix (emoji_magnifier @ '' **Filtered Results (''
                          @ show_nat (df_len (rows_meeting lib df ?cs))
                          @ '' records):**\<newline>\<newline>''
                          @ ''Filters applied: ''
                          @ py_join '', '' (map (constraint_label lib) ?cs)
                          @ ''\<newline>\<newline>'')
                  (fst (handle_comprehensive_filter lib user_input df (df_columns df)
                          mentioned_cols role_hint))"
    if "?cs \<noteq> []"
    using that unfolding handle_comprehensive_filter_def st filter_state_def
    by (simp add: prefix_def)
  have search: "handle_comprehensive_filter lib user_input df (df_columns df) mentioned_cols role_hint
      = handle_comprehensive_search lib user_input df (df_columns df) mentioned_cols role_hint"
    if "?cs = []"
    using that unfolding handle_comprehensive_filter_def st filter_state_def by simp
  have step: "rows_meeting lib df (take (Suc k) ?cs)
      = bool_index (rows_meeting lib df (take k ?cs)) (index df) (constraint_mask lib df (?cs ! k))"
    if "k < length ?cs" for k
  proof -
    have "constraint_asked user_input df (?cs ! k)" using asked that by simp
    from rows_meeting_snoc [OF assms constraint_mask_length [OF assms this],
           where cs = "take k ?cs"]
    show ?thesis using that by (simp add: take_Suc_conv_app_nth)
  qed
  have labels: "snd (apply_filters lib user_input df (df_columns df)) = map (constraint_label lib) ?cs"
    and frame: "fst (apply_filters lib user_input df (df_columns df)) = rows_meeting lib df ?cs"
    unfolding st by (simp_all add: filter_state_def)
  have empty: "snd (apply_filters lib user_input df (df_columns df)) = [] \<longleftrightarrow> ?cs = []"
    and single: "length (snd (apply_filters lib user_input df (df_columns df))) = 1
                   \<longleftrightarrow> length ?cs = 1"
    unfolding labels by simp_all
  show ?thesis
    unfolding empty single
    using labels frame rows_meeting_nil [OF assms, of lib] step asked one shown search
    by (intro conjI allI impI) simp_all
qed

theorem filter_applied_constraints_witness:
  "wf_table example_tickets
   \<and> applied_constraints example_lib ''which status open'' example_tickets
       = [Equals ''status'' ''open'']
   \<and> constraint_asked ''which status open'' example_tickets (Equals ''status'' ''open'')
   \<and> constraint_met example_lib example_tickets (Equals ''status'' ''open'')
   \<and> apply_filters example_lib ''which status open'' example_tickets (df_columns example_tickets)
       = (\<lparr>index = [0],
           cols = [(''status'', \<lparr>col_dtype = Object, col_values = [Str ''open'']\<rparr>),
                   (''severity'', \<lparr>col_dtype = Object, col_values = [Str ''low'']\<rparr>)]\<rparr>,
          [''status = open''])
   \<and> 1 \<le> df_len (fst (apply_filters example_lib ''which status open'' example_tickets
                 (df_columns example_tickets)))
   \<and> prefix (emoji_magnifier @ '' **Filtered Results (1 records):**\<newline>\<newline>''
               @ ''Filters applied: status = open\<newline>\<newline>'')
        (fst (handle_comprehensive_filter example_lib ''which status open'' example_tickets
                (df_columns example_tickets) [''status''] None))
   \<and> applied_constraints example_lib ''which status pending'' example_tickets = []
   \<and> handle_comprehensive_filter example_lib ''which status pending'' example_tickets
         (df_columns example_tickets) [''status''] None
       = handle_comprehensive_search example_lib ''which status pending'' example_tickets
           (df_columns example_tickets) [''status''] None
   \<and> wf_table example_orders
   \<and> applied_constraints example_lib ''amount greater than 15'' example_orders
       = [GreaterThan ''amount'' 15]
   \<and> constraint_asked ''amount greater than 15'' example_orders (GreaterThan ''amount'' 15)
   \<and> apply_filters example_lib ''amount greater than 15'' example_orders (df_columns example_orders)
       = (\<lparr>index = [1],
           cols = [(''id'', \<lparr>col_dtype = Int64, col_values = [IntV 2]\<rparr>),
                   (''amount'', \<lparr>col_dtype = Float64, col_values = [FloatV 20]\<rparr>)]\<rparr>,
          [''amount > 15.0''])"
proof -
  have a: "wf_table example_tickets" by code_simp
  have b: "applied_constraints example_lib ''which status open'' example_tickets
       = [Equals ''status'' ''open'']" by code_simp
  have c: "applied_constraints example_lib ''which status pending'' example_tickets = []"
    by code_simp
  have r: "rows_meeting example_lib example_tickets [Equals ''status'' ''open'']
       = \<lparr>index = [0],
           cols = [(''status'', \<lparr>col_dtype = Object, col_values = [Str ''open'']\<rparr>),
                   (''severity'', \<lparr>col_dtype = Object, col_values = [Str ''low'']\<rparr>)]\<rparr>"
    by code_simp
  have n: "show_nat (df_len \<lparr>index = [0],
           cols = [(''status'', \<lparr>col_dtype = Object, col_values = [Str ''open'']\<rparr>),
                   (''severity'', \<lparr>col_dtype = Object, col_values = [Str ''low'']\<rparr>)]\<rparr>) = ''1''"
    by code_simp
  have j: "py_join '', '' [''status = open''] = ''status = open''" by code_simp
  from filter_applied_constraints [OF a, of example_lib "''which status open''" "[''status'']" None]
  have d: "constraint_asked ''which status open'' example_tickets (Equals ''status'' ''open'')
      \<and> constraint_met example_lib example_tickets (Equals ''status'' ''open'')
      \<and> apply_filters example_lib ''which status open'' example_tickets (df_columns example_tickets)
       = (\<lparr>index = [0],
           cols = [(''status'', \<lparr>col_dtype = Object, col_values = [Str ''open'']\<rparr>),
                   (''severity'', \<lparr>col_dtype = Object, col_values = [Str ''low'']\<rparr>)]\<rparr>,
          [''status = open''])
      \<and> 1 \<le> df_len (fst (apply_filters example_lib ''which status open'' example_tickets
                 (df_columns example_tickets)))
      \<and> prefix (emoji_magnifier @ '' **Filtered Results (1 records):**\<newline>\<newline>''
               @ ''Filters applied: status = open\<newline>\<newline>'')
        (fst (handle_comprehensive_filter example_lib ''which status open'' example_tickets
                (df_columns example_tickets) [''status''] None))"
    unfolding b r n j by (simp add: prod_eq_iff df_len_def)
  from filter_applied_constraints [OF a, of example_lib "''which status pending''"
         "[''status'']" None]
  have e: "handle_comprehensive_filter example_lib ''which status pending'' example_tickets
         (df_columns example_tickets) [''status''] None
       = handle_comprehensive_search example_lib ''which status pending'' example_tickets
           (df_columns example_tickets) [''status''] None"
    unfolding c by simp
  have f: "wf_table example_orders" by code_simp
  have g: "applied_constraints example_lib ''amount greater than 15'' example_orders
       = [GreaterThan ''amount'' 15]" by code_simp
  have h: "rows_meeting example_lib example_orders [GreaterThan ''amount'' 15]
       = \<lparr>index = [1],
           cols = [(''id'', \<lparr>col_dtype = Int64, col_values = [IntV 2]\<rparr>),
                   (''amount'', \<lparr>col_dtype = Float64, col_values = [FloatV 20]\<rparr>)]\<rparr>"
    by code_simp
  have l: "float_str example_lib 15 = ''15.0''" by code_simp
  from filter_applied_constraints [OF f, of example_lib "''amount greater than 15''" "[]" None]
  have i: "constraint_asked ''amount greater than 15'' example_orders (GreaterThan ''amount'' 15)
      \<and> apply_filters example_lib ''amount greater than 15'' example_orders
            (df_columns example_orders)
       = (\<lparr>index = [1],
           cols = [(''id'', \<lparr>col_dtype = Int64, col_values = [IntV 2]\<rparr>),
                   (''amount'', \<lparr>col_dtype = Float64, col_values = [FloatV 20]\<rparr>)]\<rparr>,
          [''amount > 15.0''])"
    unfolding g h l by (simp add: prod_eq_iff l)
  from a b c d e f g i show ?thesis by (simp add: df_len_def)
qed

subsection \<open>The handlers and their table\<close>

lemma count_keeps_table:
  "snd (handle_comprehensive_count lib user_input df columns mentioned_cols role_hint data_sources) = df"
  by (simp add: handle_comprehensive_count_def Let_def)

lemma statistics_keeps_table:
  "snd (handle_comprehensive_statistics lib user_input df columns mentioned_cols role_hint) = df"
  by (simp add: handle_comprehensive_statistics_def Let_def)

lemma search_keeps_table:
  "snd (handle_comprehensive_search lib user_input df columns mentioned_cols role_hint) = df"
  by (simp add: handle_comprehensive_search_def Let_def)

lemma filter_keeps_table:
  "snd (handle_comprehensive_filter lib user_input df columns mentioned_cols role_hint) = df"
  by (simp add: handle_comprehensive_filter_def search_keeps_table case_prod_beta)

lemma comparison_keeps_table:
  "snd (handle_comprehensive_comparison lib user_input df columns mentioned_cols role_hint) = df"
  by (simp add: handle_comprehensive_comparison_def Let_def)

lemma value_keeps_table:
  "snd (handle_value_query lib user_input df columns mentioned_cols role_hint) = df"
  by (simp add: handle_value_query_def search_keeps_table Let_def)

lemma list_keeps_table:
  "snd (handle_list_query lib user_input df columns mentioned_cols role_hint) = df"
  by (simp add: handle_list_query_def Let_def)

lemma summary_keeps_table:
  "snd (handle_comprehensive_summary lib df columns role_hint data_sources) = df"
  by (simp add: handle_comprehensive_summary_def)

lemma fallback_keeps_table:
  "snd (handle_intelligent_fallback lib user_input df columns role_hint data_sources) = df"
  by (simp add: handle_intelligent_fallback_def Let_def)

lemma trend_table:
  "snd (handle_comprehensive_trend lib user_input df columns mentioned_cols role_hint)
     = trend_effect lib df columns"
  by (simp add: handle_comprehensive_trend_def trend_effect_def trend_target_def Let_def
        split: list.splits)

lemma df_set_index: "index (df_set df col c) = index df"
  by (simp add: df_set_def)

lemma df_set_others:
  "filter (\<lambda>(n, c). n \<noteq> col) (cols (df_set df col c')) = filter (\<lambda>(n, c). n \<noteq> col) (cols df)"
proof -
  have "filter (\<lambda>(n, c). n \<noteq> col) (map (\<lambda>(n, old). if n = col then (n, c') else (n, old)) cs)
      = filter (\<lambda>(n, c). n \<noteq> col) cs" for cs
    by (induction cs) auto
  then show ?thesis by (simp add: df_set_def)
qed

lemma df_set_names:
  "col_in_df col df \<Longrightarrow> df_columns (df_set df col c) = df_columns df"
proof -
  have "map fst (map (\<lambda>(n, old). if n = col then (n, c) else (n, old)) cs) = map fst cs" for cs
    by (induction cs) auto
  then show "col_in_df col df \<Longrightarrow> df_columns (df_set df col c) = df_columns df"
    by (simp add: df_set_def df_columns_def)
qed

text \<open>
  C2 as stated fails for the Trend handler: it assigns the parsed dates to the date
  column of the table it is given.  In \<open>example_events\<close> the column \<open>created\<close> is a text
  column before the call and a datetime column after it.
\<close>

theorem trend_changes_table_counterexample:
  "detect_question_type ''trend'' example_events (df_columns example_events) = ''trend''
   \<and> snd (analyze_and_answer example_lib ''trend'' example_events (df_columns example_events)
            None [''main database'']) \<noteq> example_events
   \<and> df_get example_events ''created''
       = \<lparr>col_dtype = Object,
          col_values = [Str ''20240105'', Str ''hello'', Str ''20231201'', Str ''20240220'']\<rparr>
   \<and> df_get (snd (handle_comprehensive_trend example_lib ''trend'' example_events
                     (df_columns example_events) [] None)) ''created''
       = \<lparr>col_dtype = Datetime64,
          col_values = [Time 20240105, Null, Time 20231201, Time 20240220]\<rparr>"
  by code_simp

text \<open>
  C2, amended.  Every handler other than Trend leaves the table it is given unchanged.
  The Trend handler leaves it unchanged when it finds no date column; otherwise it
  replaces the first date column by that column's values parsed as dates, and leaves the
  row labels and every other column unchanged.
\<close>

theorem handlers_table_effect:
  "snd (analyze_and_answer lib user_input df (df_columns df) role_hint data_sources)
     = (if detect_question_type user_input df (df_columns df) = ''trend''
        then trend_effect lib df (df_columns df) else df)
   \<and> index (trend_effect lib df (df_columns df)) = index df
   \<and> filter (\<lambda>(n, c). Some n \<noteq> trend_target lib df (df_columns df)) (cols (trend_effect lib df (df_columns df)))
       = filter (\<lambda>(n, c). Some n \<noteq> trend_target lib df (df_columns df)) (cols df)"
proof (intro conjI)
  show "snd (analyze_and_answer lib user_input df (df_columns df) role_hint data_sources)
     = (if detect_question_type user_input df (df_columns df) = ''trend''
        then trend_effect lib df (df_columns df) else df)"
    unfolding analyze_and_answer_def Let_def
    by (simp add: count_keeps_table statistics_keeps_table search_keeps_table filter_keeps_table
          comparison_keeps_table value_keeps_table list_keeps_table summary_keeps_table
          fallback_keeps_table trend_table)
  show "index (trend_effect lib df (df_columns df)) = index df"
    by (simp add: trend_effect_def df_set_index split: option.splits)
  show "filter (\<lambda>(n, c). Some n \<noteq> trend_target lib df (df_columns df)) (cols (trend_effect lib df (df_columns df)))
       = filter (\<lambda>(n, c). Some n \<noteq> trend_target lib df (df_columns df)) (cols df)"
    by (cases "trend_target lib df (df_columns df)") (simp_all add: trend_effect_def df_set_others)
qed

end
